theory Spec2Isabelle
  imports Main
begin

section \<open>JavaScript values, errors and the host environment\<close>

text \<open>
  The module \<^verbatim>\<open>index.js\<close> of the command exists in several revisions.  Two of them
  are modelled in full.  The first has both \<^verbatim>\<open>--config\<close> and \<^verbatim>\<open>--transformer\<close>
  (\<^verbatim>\<open>readConfigFile\<close>, \<^verbatim>\<open>createTransformersForConfig\<close>, \<^verbatim>\<open>applyTransformers\<close>); its
  functions keep their names.  The second has \<^verbatim>\<open>--transformer\<close> only
  (\<^verbatim>\<open>loadTransformer\<close>, and a loop that catches the failure of each transformer); where
  its names clash with the first, they carry the suffix 2.  Of the CommonJS revision, whose
  option handlers and \<^verbatim>\<open>readConfigFile\<close> are those of the first, only
  \<^verbatim>\<open>createTransformersForConfig\<close> is modelled, with the suffix 3.  An older CommonJS
  revision, which collects the values of \<^verbatim>\<open>--transformer\<close> first and puts the transformers
  of the configuration file after all of them, is not modelled.
\<close>

text \<open>
  The documents and configuration files handled by the command are JSON values.
  An object is kept as the list of its properties in enumeration order
  (what \<^verbatim>\<open>Object.keys\<close> and object spread walk through).
  Numbers are carried around opaquely; the only thing the modelled code ever
  observes about a number is whether it is zero.
\<close>

datatype json =
    JNull
  | JBool bool
  | JNum int
  | JStr string
  | JArr "json list"
  | JObj "(string \<times> json) list"

text \<open>
  What can be thrown, or be the reason of a rejection:
  \<^item> an \<^verbatim>\<open>Error\<close> object with the \<^verbatim>\<open>toString\<close> of \<^verbatim>\<open>Error.prototype\<close>: its \<^verbatim>\<open>name\<close>, its
    \<^verbatim>\<open>message\<close>, and what the engine captured for its stack when it was constructed;
  \<^item> an \<^verbatim>\<open>Error\<close> object of a class with a \<^verbatim>\<open>toString\<close> of its own (the \<^verbatim>\<open>YAMLException\<close>
    of js-yaml, the errors of Node.js that carry a code): the same three, and the text its
    \<^verbatim>\<open>toString\<close> gives for a message;
  \<^item> a value that is not an object.
  What reading the \<^verbatim>\<open>stack\<close> property of an error object gives is left to the engine
  (\<open>format_stack\<close> below): the engine may or may not take a message changed after the
  construction into the text.  Objects that are thrown without being errors are not
  modelled.
\<close>

datatype primitive = PUndefined | PNull | PBool bool | PNum int | PStr string

datatype js_error =
    JsError string string string
  | ClassError string string string "string \<Rightarrow> string"
  | Thrown primitive

text \<open>
  \<^verbatim>\<open>new TypeError(msg)\<close>, \<^verbatim>\<open>new Error(msg)\<close>.  The call sites of an error made here
  are not modelled; none of the modelled entry points prints the stack of such an error.
\<close>

definition new_error :: "string \<Rightarrow> string \<Rightarrow> js_error" where
  "new_error n m = JsError n m []"

abbreviation TypeError :: "string \<Rightarrow> js_error" where
  "TypeError \<equiv> new_error ''TypeError''"

abbreviation Error :: "string \<Rightarrow> js_error" where
  "Error \<equiv> new_error ''Error''"

text \<open>
  \<^verbatim>\<open>err.message += s; throw err\<close>, in strict mode as all the revisions are: what is
  thrown.  On an error object the assignment changes the one property and the object is
  thrown on.  On \<^verbatim>\<open>undefined\<close> and \<^verbatim>\<open>null\<close> reading \<^verbatim>\<open>message\<close> throws, on any other
  primitive the assignment throws (the engine adds the value to the text of this
  \<^verbatim>\<open>TypeError\<close>); what was caught is then lost.
\<close>

fun append_message :: "js_error \<Rightarrow> string \<Rightarrow> js_error" where
  "append_message (JsError n m f) s = JsError n (m @ s) f"
| "append_message (ClassError n m f own_toString) s = ClassError n (m @ s) f own_toString"
| "append_message (Thrown PUndefined) s =
     TypeError ''Cannot read properties of undefined (reading message)''"
| "append_message (Thrown PNull) s =
     TypeError ''Cannot read properties of null (reading message)''"
| "append_message (Thrown v) s = TypeError ''Cannot create property message on a primitive''"

abbreviation quote :: char where
  "quote \<equiv> CHR 0x27"

text \<open>
  A readable stream is either the standard input of the command or a file stream made
  by \<^verbatim>\<open>createReadStream(path)\<close>; only the latter has a \<^verbatim>\<open>path\<close> property.
\<close>

datatype source = Stdin | File string

fun stream_path :: "source \<Rightarrow> string option" where
  "stream_path Stdin = None"
| "stream_path (File p) = Some p"

text \<open>\<^verbatim>\<open>stream.path || '-'\<close>: an absent or empty path gives \<^verbatim>\<open>'-'\<close>.\<close>

definition filename :: "source \<Rightarrow> string" where
  "filename stream =
     (case stream_path stream of None \<Rightarrow> ''-'' | Some p \<Rightarrow> if p = [] then ''-'' else p)"

text \<open>
  A transformer instance is known to the command by its \<^verbatim>\<open>transformOpenApi\<close> method
  alone; awaiting the call gives the next document or the error thrown (or the rejection).
  An instance without a callable \<^verbatim>\<open>transformOpenApi\<close> is the one whose call gives the
  \<^verbatim>\<open>TypeError\<close> of calling it.  A transformer class is what \<^verbatim>\<open>new Transformer(...options)\<close>
  does with the constructor arguments; a default export that cannot be constructed is
  the class whose construction gives the \<^verbatim>\<open>TypeError\<close>.
\<close>

type_synonym transformer = "json \<Rightarrow> js_error + json"

type_synonym transformer_class = "json list \<Rightarrow> js_error + transformer"

text \<open>What the option parser (Commander) reports for one command line.\<close>

datatype cli_event = OptConfig string | OptTransformer string

datatype parse_outcome =
    CommanderError "int option" "string list" "string list"
  | Parsed "cli_event list" bool "string list"

datatype parse_outcome2 =
    CommanderError2 "int option" "string list" "string list"
  | VersionRequested
  | Parsed2 "string list" "string list"

text \<open>
  Everything the command takes from Node.js and from its dependencies is a field of the
  environment: the stream contents and the time it takes to read each stream, the
  parsers and the serializer, module resolution and loading, the path and URL helpers,
  the option parser.
\<close>

record node_env =
  readString :: "source \<Rightarrow> js_error + string"
  read_time :: "source \<Rightarrow> nat"
  JSON_parse :: "string \<Rightarrow> js_error + json"
  loadYaml :: "string \<Rightarrow> string list \<times> (js_error + json)"
  JSON_stringify :: "json \<Rightarrow> string"
  to_String :: "json option \<Rightarrow> string"
  format_stack :: "js_error \<Rightarrow> string"
  import_meta_resolve :: "(string \<Rightarrow> string option \<Rightarrow> js_error + string) option"
  require_resolve :: "string \<Rightarrow> string list option \<Rightarrow> js_error + string"
  import_module :: "string \<Rightarrow> js_error + transformer_class"
  process_cwd :: string
  path_resolve :: "string \<Rightarrow> string"
  path_dirname :: "string \<Rightarrow> string"
  pathToFileURL :: "string \<Rightarrow> string"
  fileURLToPath :: "string \<Rightarrow> js_error + string"
  commander_parse :: "string list \<Rightarrow> parse_outcome"
  commander_parse2 :: "string list \<Rightarrow> parse_outcome2"
  package_json :: source
  stdout_error :: "js_error option"

text \<open>
  The template literal \<^verbatim>\<open>`${v}`\<close> for a value, \<open>None\<close> being \<^verbatim>\<open>undefined\<close>: a string is
  itself, the rest is the engine's.
\<close>

definition template :: "node_env \<Rightarrow> json option \<Rightarrow> string" where
  "template env v = (case v of Some (JStr s) \<Rightarrow> s | other \<Rightarrow> to_String env other)"

fun primitive_value :: "primitive \<Rightarrow> json option" where
  "primitive_value PUndefined = None"
| "primitive_value PNull = Some JNull"
| "primitive_value (PBool b) = Some (JBool b)"
| "primitive_value (PNum n) = Some (JNum n)"
| "primitive_value (PStr s) = Some (JStr s)"

text \<open>
  The template literal \<^verbatim>\<open>`${err}`\<close>: \<^verbatim>\<open>Error.prototype.toString\<close>, the \<^verbatim>\<open>toString\<close> of the
  error's own class, or the text of the primitive.
\<close>

fun error_toString :: "node_env \<Rightarrow> js_error \<Rightarrow> string" where
  "error_toString env (JsError n m f) =
     (if n = [] then m else if m = [] then n else n @ '': '' @ m)"
| "error_toString env (ClassError n m f own_toString) = own_toString m"
| "error_toString env (Thrown v) = template env (primitive_value v)"

text \<open>
  Reading \<^verbatim>\<open>err.stack\<close> for the template literal \<^verbatim>\<open>`${err.stack}`\<close>: it throws on
  \<^verbatim>\<open>undefined\<close> and \<^verbatim>\<open>null\<close>, gives \<^verbatim>\<open>undefined\<close> on any other primitive, and the engine's
  text on an error object.
\<close>

fun error_stack :: "node_env \<Rightarrow> js_error \<Rightarrow> js_error + string" where
  "error_stack env (Thrown PUndefined) =
     Inl (TypeError ''Cannot read properties of undefined (reading stack)'')"
| "error_stack env (Thrown PNull) =
     Inl (TypeError ''Cannot read properties of null (reading stack)'')"
| "error_stack env (Thrown v) = Inr (template env None)"
| "error_stack env e = Inr (format_stack env e)"

section \<open>Reading the inputs\<close>

text \<open>
  \<^verbatim>\<open>readJson(stream)\<close>: read the stream, parse it, and on any failure append the
  file name to the message before throwing the error again.
\<close>

definition readJson :: "node_env \<Rightarrow> source \<Rightarrow> js_error + json" where
  "readJson env stream =
     (case (case readString env stream of
              Inl e \<Rightarrow> Inl e
            | Inr json \<Rightarrow> JSON_parse env json) of
        Inl err \<Rightarrow> Inl (append_message err ('' in '' @ filename stream))
      | Inr v \<Rightarrow> Inr v)"

text \<open>
  \<^verbatim>\<open>readJsonOrYaml(stream, onWarning)\<close>: JSON first, YAML when that fails.  The first
  component lists the warnings handed to \<^verbatim>\<open>onWarning\<close> while the YAML was loaded.
\<close>

definition readJsonOrYaml :: "node_env \<Rightarrow> source \<Rightarrow> string list \<times> (js_error + json)" where
  "readJsonOrYaml env stream =
     (case readString env stream of
        Inl err \<Rightarrow> ([], Inl (append_message err ('' in '' @ filename stream)))
      | Inr jsonOrYaml \<Rightarrow>
          (case JSON_parse env jsonOrYaml of
             Inr v \<Rightarrow> ([], Inr v)
           | Inl errJson \<Rightarrow>
               (case loadYaml env jsonOrYaml of
                  (warnings, Inl err) \<Rightarrow>
                    (warnings, Inl (append_message err ('' in '' @ filename stream)))
                | (warnings, Inr v) \<Rightarrow> (warnings, Inr v))))"

subsection \<open>The configuration file\<close>

text \<open>
  The object \<^verbatim>\<open>readConfigFile\<close> returns: the parsed \<^verbatim>\<open>transformers\<close> array and the
  \<^verbatim>\<open>configFilePath\<close> it adds.  The objects the \<^verbatim>\<open>--transformer\<close> handler makes have the
  same shape, without a \<^verbatim>\<open>configFilePath\<close>.
\<close>

record config =
  transformers :: "json list"
  configFilePath :: "string option"

text \<open>
  Reading a property of an object; \<open>None\<close> is \<^verbatim>\<open>undefined\<close>.  The properties of a parsed
  object have distinct names.
\<close>

definition get_prop :: "(string \<times> json) list \<Rightarrow> string \<Rightarrow> json option" where
  "get_prop kvs k = map_of kvs k"

text \<open>The loop over \<^verbatim>\<open>Object.keys(config)\<close>: the first key that is not \<^verbatim>\<open>transformers\<close> throws.\<close>

fun check_keys :: "string list \<Rightarrow> js_error option" where
  "check_keys [] = None"
| "check_keys (key # keys) =
     (if key \<noteq> ''transformers''
      then Some (Error (''unrecognized key '' @ [quote] @ key @ [quote] @ '' in config''))
      else check_keys keys)"

text \<open>The body of the loop over \<^verbatim>\<open>transformers\<close>, for one entry.\<close>

fun check_transformer :: "json \<Rightarrow> js_error option" where
  "check_transformer (JArr []) =
     Some (Error ''config.transformers tuples must at least 1 element'')"
| "check_transformer (JArr (JStr name # options)) = None"
| "check_transformer (JArr (first # options)) =
     Some (TypeError ''config.transformers tuple first item must be a string'')"
| "check_transformer (JStr name) = None"
| "check_transformer other =
     Some (TypeError ''config.transformers items must be strings or Arrays'')"

fun check_transformers :: "json list \<Rightarrow> js_error option" where
  "check_transformers [] = None"
| "check_transformers (transformer # rest) =
     (case check_transformer transformer of
        Some e \<Rightarrow> Some e
      | None \<Rightarrow> check_transformers rest)"

text \<open>
  \<^verbatim>\<open>readConfigFile(stream)\<close>.  When the \<^verbatim>\<open>transformers\<close> property is missing, the test
  \<^verbatim>\<open>transformers !== undefined && !Array.isArray(transformers)\<close> lets \<^verbatim>\<open>undefined\<close> through,
  and the \<^verbatim>\<open>for (const transformer of transformers)\<close> that follows throws the
  \<^verbatim>\<open>TypeError\<close> of iterating \<^verbatim>\<open>undefined\<close>.
\<close>

definition readConfigFile :: "node_env \<Rightarrow> source \<Rightarrow> js_error + config" where
  "readConfigFile env stream =
     (case readJson env stream of
        Inl e \<Rightarrow> Inl e
      | Inr (JObj kvs) \<Rightarrow>
          (case check_keys (map fst kvs) of
             Some e \<Rightarrow> Inl e
           | None \<Rightarrow>
               (case get_prop kvs ''transformers'' of
                  None \<Rightarrow> Inl (TypeError ''transformers is not iterable'')
                | Some (JArr ts) \<Rightarrow>
                    (case check_transformers ts of
                       Some e \<Rightarrow> Inl e
                     | None \<Rightarrow>
                         Inr \<lparr>transformers = ts, configFilePath = stream_path stream\<rparr>)
                | Some other \<Rightarrow> Inl (TypeError ''config.transformers must be an Array'')))
      | Inr other \<Rightarrow> Inl (TypeError ''config file must contain a JSON object''))"

section \<open>Loading and applying transformers\<close>

subsection \<open>Resolution\<close>

text \<open>
  \<^verbatim>\<open>makeResolver()\<close>: \<^verbatim>\<open>require.resolve(id, options)\<close> of a \<^verbatim>\<open>require\<close> created for the
  command's own module, with \<^verbatim>\<open>{ paths: [path.dirname(parent)] }\<close> when \<^verbatim>\<open>parent\<close> is
  truthy and with no options at all otherwise.
\<close>

definition makeResolver :: "node_env \<Rightarrow> string \<Rightarrow> string option \<Rightarrow> js_error + string" where
  "makeResolver env ident parent =
     require_resolve env ident
       (case parent of
          None \<Rightarrow> None
        | Some p \<Rightarrow> if p = [] then None else Some [path_dirname env p])"

text \<open>\<^verbatim>\<open>const resolveTransformer = import.meta.resolve || makeResolver()\<close>.\<close>

definition resolveTransformer :: "node_env \<Rightarrow> string \<Rightarrow> string option \<Rightarrow> js_error + string" where
  "resolveTransformer env =
     (case import_meta_resolve env of
        Some resolve \<Rightarrow> resolve
      | None \<Rightarrow> makeResolver env)"

subsection \<open>Instantiation\<close>

text \<open>
  \<^verbatim>\<open>const [name, ...options] = Array.isArray(transformer) ? transformer : [transformer]\<close>.
\<close>

fun name_options :: "json \<Rightarrow> json option \<times> json list" where
  "name_options (JArr []) = (None, [])"
| "name_options (JArr (name # options)) = (Some name, options)"
| "name_options transformer = (Some transformer, [])"

text \<open>
  The asynchronous function that \<^verbatim>\<open>createTransformersForConfig\<close> maps over the entries:
  resolve the name, import the module, construct its default export with the options.
  The value is what the promise settles to.  A name that is not a string cannot come
  out of \<^verbatim>\<open>readConfigFile\<close> or of the \<^verbatim>\<open>--transformer\<close> handler; the resolver refuses it.
\<close>

definition instantiate :: "node_env \<Rightarrow> string option \<Rightarrow> json \<Rightarrow> js_error + transformer" where
  "instantiate env parent transformer =
     (case name_options transformer of
        (Some (JStr name), options) \<Rightarrow>
          (case resolveTransformer env name parent of
             Inl e \<Rightarrow> Inl e
           | Inr resolved \<Rightarrow>
               (case import_module env resolved of
                  Inl e \<Rightarrow> Inl e
                | Inr Transformer \<Rightarrow> Transformer options))
      | (other, options) \<Rightarrow> Inl (TypeError ''The id argument must be of type string''))"

text \<open>
  \<^verbatim>\<open>createTransformersForConfig({ configFilePath, transformers })\<close>: one promise per
  entry, in the order of the entries.  \<^verbatim>\<open>resolveParent\<close> is the resolved path of the
  configuration file, or \<^verbatim>\<open>undefined\<close> when \<^verbatim>\<open>configFilePath\<close> is falsy.
\<close>

definition resolveParent :: "node_env \<Rightarrow> string option \<Rightarrow> string option" where
  "resolveParent env path =
     (case path of
        None \<Rightarrow> None
      | Some p \<Rightarrow> if p = [] then None else Some (path_resolve env p))"

definition createTransformersForConfig ::
  "node_env \<Rightarrow> config \<Rightarrow> (js_error + transformer) list" where
  "createTransformersForConfig env c =
     map (instantiate env (resolveParent env (configFilePath c))) (transformers c)"

subsection \<open>Promise.all\<close>

text \<open>
  The promises of one \<^verbatim>\<open>Promise.all\<close> settle in some order of their own; \<open>delays\<close> gives
  each promise, by its index, the time it takes (a missing entry is 0, equal times settle
  in index order).  \<^verbatim>\<open>Promise.all\<close> rejects with the reason of the promise that rejects
  first in time, and otherwise fulfils with the values in the order of the array.
\<close>

definition completion_order :: "nat list \<Rightarrow> nat \<Rightarrow> nat list" where
  "completion_order delays n =
     sort_key (\<lambda>i. if i < length delays then delays ! i else 0) [0..<n]"

definition rejections :: "(js_error + 'a) list \<Rightarrow> nat list \<Rightarrow> js_error list" where
  "rejections promises order =
     List.map_filter (\<lambda>i. case promises ! i of Inl e \<Rightarrow> Some e | Inr v \<Rightarrow> None) order"

definition fulfilled :: "(js_error + 'a) list \<Rightarrow> 'a list" where
  "fulfilled promises =
     List.map_filter (\<lambda>p. case p of Inl e \<Rightarrow> None | Inr v \<Rightarrow> Some v) promises"

definition promise_all :: "nat list \<Rightarrow> (js_error + 'a) list \<Rightarrow> js_error + 'a list" where
  "promise_all delays promises =
     (case rejections promises (completion_order delays (length promises)) of
        e # later \<Rightarrow> Inl e
      | [] \<Rightarrow> Inr (fulfilled promises))"

subsection \<open>The fold\<close>

text \<open>
  The loop \<^verbatim>\<open>for (const transformer of transformers) openApi = await
  transformer.transformOpenApi(openApi)\<close>.  Beside the result it returns, in the order of
  the calls, the positions in the array of the transformers whose \<^verbatim>\<open>transformOpenApi\<close>
  was called; \<open>i\<close> is the position of the head of the list.
\<close>

fun transform_loop :: "transformer list \<Rightarrow> nat \<Rightarrow> json \<Rightarrow> nat list \<times> (js_error + json)" where
  "transform_loop [] i openApi = ([], Inr openApi)"
| "transform_loop (transformer # rest) i openApi =
     (case transformer openApi of
        Inl e \<Rightarrow> ([i], Inl e)
      | Inr openApi' \<Rightarrow>
          (case transform_loop rest (Suc i) openApi' of
             (called, result) \<Rightarrow> (i # called, result)))"

text \<open>
  \<^verbatim>\<open>applyTransformers(configs, openApi)\<close>: all the transformers of all the configurations
  are instantiated through one \<^verbatim>\<open>Promise.all\<close>, then applied one after the other.
\<close>

definition applyTransformers ::
  "node_env \<Rightarrow> nat list \<Rightarrow> config list \<Rightarrow> json \<Rightarrow> nat list \<times> (js_error + json)" where
  "applyTransformers env delays configs openApi =
     (case promise_all delays (concat (map (createTransformersForConfig env) configs)) of
        Inl e \<Rightarrow> ([], Inl e)
      | Inr instances \<Rightarrow> transform_loop instances 0 openApi)"

subsection \<open>The transformers of the test suite\<close>

text \<open>
  \<^verbatim>\<open>{ ...openApi, 'x-transformers': v }\<close>: a property that exists keeps its place and
  takes the new value, a new one goes to the end.
\<close>

fun set_prop :: "(string \<times> json) list \<Rightarrow> string \<Rightarrow> json \<Rightarrow> (string \<times> json) list" where
  "set_prop [] k v = [(k, v)]"
| "set_prop ((k', v') # kvs) k v =
     (if k' = k then (k, v) # kvs else (k', v') # set_prop kvs k v)"

text \<open>
  \<^verbatim>\<open>[...openApi['x-transformers'] || []]\<close>: a missing or falsy value gives no element, an
  array its elements, a string its characters; spreading anything else throws.
\<close>

fun spread_or_empty :: "json option \<Rightarrow> js_error + json list" where
  "spread_or_empty None = Inr []"
| "spread_or_empty (Some JNull) = Inr []"
| "spread_or_empty (Some (JBool b)) =
     (if b then Inl (TypeError ''openApi.x-transformers is not iterable'') else Inr [])"
| "spread_or_empty (Some (JNum n)) =
     (if n = 0 then Inr [] else Inl (TypeError ''openApi.x-transformers is not iterable''))"
| "spread_or_empty (Some (JStr s)) = Inr (map (\<lambda>c. JStr [c]) s)"
| "spread_or_empty (Some (JArr xs)) = Inr xs"
| "spread_or_empty (Some (JObj kvs)) =
     Inl (TypeError ''openApi.x-transformers is not iterable'')"

text \<open>
  The method body shared, up to the marker, by \<^verbatim>\<open>SyncTransformer\<close> and
  \<^verbatim>\<open>AsyncTransformer\<close>.
\<close>

definition transformOpenApi :: "string \<Rightarrow> json list \<Rightarrow> transformer" where
  "transformOpenApi marker args openApi =
     (case openApi of
        JObj kvs \<Rightarrow>
          (case spread_or_empty (get_prop kvs ''x-transformers'') of
             Inl e \<Rightarrow> Inl e
           | Inr previous \<Rightarrow>
               Inr (JObj (set_prop kvs ''x-transformers''
                            (JArr (previous @ [JArr (JStr marker # args)])))))
      | other \<Rightarrow> Inl (Error ''Invalid openApi object''))"

definition SyncTransformer :: transformer_class where
  "SyncTransformer args = Inr (transformOpenApi ''sync-transformer'' args)"

definition AsyncTransformer :: transformer_class where
  "AsyncTransformer args = Inr (transformOpenApi ''async-transformer'' args)"

section \<open>The entry point\<close>

text \<open>
  The arguments of the entry point as JavaScript hands them over: \<open>args\<close> may or may not
  be an \<^verbatim>\<open>Array\<close>, \<open>options\<close> may or may not be an object, and each of its streams
  may or may not be there with the method the entry point asks for
  (\<^verbatim>\<open>stdin.on\<close>, \<^verbatim>\<open>stdout.write\<close>, \<^verbatim>\<open>stderr.write\<close>).
\<close>

datatype js_args = ArgsArray "string list" | ArgsOther

record cmd_options =
  stdin_readable :: bool
  stdout_writable :: bool
  stderr_writable :: bool
  stdin_isTTY :: bool

datatype js_options = OptionsOther | Options cmd_options

text \<open>
  What one call of the entry point does: the promise it returns is rejected with an error
  (\<open>Inl\<close>) or fulfilled with an exit code (\<open>Inr\<close>); the chunks written to the two output
  streams; the positions of the transformers whose \<^verbatim>\<open>transformOpenApi\<close> was called.
\<close>

record outcome =
  exit_code :: "js_error + int"
  stdout :: "string list"
  stderr :: "string list"
  called :: "nat list"

text \<open>
  The entry point with \<^verbatim>\<open>--config\<close> starts \<^verbatim>\<open>readConfigFile\<close> while the options are parsed
  and attaches a handler to its promise only later, in the \<^verbatim>\<open>Promise.all\<close> that follows
  the reading of the document.  When the promise is rejected before that, the rejection
  is unhandled: what becomes of the run is then the host's business (Node.js 15 and
  later end the process, so that the promise of the entry point never settles), and the
  model stops there.
\<close>

datatype run = Settled outcome | Unhandled js_error

abbreviation newline :: char where
  "newline \<equiv> CHR 0x0A"

definition rejected :: "js_error \<Rightarrow> outcome" where
  "rejected e = \<lparr>exit_code = Inl e, stdout = [], stderr = [], called = []\<rparr>"

text \<open>The type checks at the top of the entry point, in the order of the source.\<close>

definition check_arguments :: "js_args \<Rightarrow> js_options \<Rightarrow> js_error + string list \<times> cmd_options" where
  "check_arguments args options =
     (case args of
        ArgsOther \<Rightarrow> Inl (TypeError ''args must be an Array with at least 2 items'')
      | ArgsArray argv \<Rightarrow>
          if length argv < 2
          then Inl (TypeError ''args must be an Array with at least 2 items'')
          else (case options of
                  OptionsOther \<Rightarrow> Inl (TypeError ''options must be an object'')
                | Options opts \<Rightarrow>
                    if \<not> stdin_readable opts
                    then Inl (TypeError ''options.stdin must be a stream.Readable'')
                    else if \<not> stdout_writable opts
                    then Inl (TypeError ''options.stdout must be a stream.Writable'')
                    else if \<not> stderr_writable opts
                    then Inl (TypeError ''options.stderr must be a stream.Writable'')
                    else Inr (argv, opts)))"

subsection \<open>Collecting the configurations while the options are parsed\<close>

text \<open>
  An element of \<^verbatim>\<open>configsOrPromises\<close>: an object made by the \<^verbatim>\<open>--transformer\<close> handler,
  or the promise of \<^verbatim>\<open>readConfigFile\<close> on the stream opened by the \<^verbatim>\<open>--config\<close> handler.
\<close>

datatype config_or_promise = Config config | ConfigPromise source

text \<open>
  The two handlers.  \<^verbatim>\<open>lastConfig && lastConfig.transformers\<close> holds for an object of the
  \<^verbatim>\<open>--transformer\<close> handler and not for a promise, which has no such property.
\<close>

fun on_option :: "config_or_promise list \<Rightarrow> cli_event \<Rightarrow> config_or_promise list" where
  "on_option configsOrPromises (OptConfig configPath) =
     configsOrPromises @ [ConfigPromise (if configPath = ''-'' then Stdin else File configPath)]"
| "on_option configsOrPromises (OptTransformer transformer) =
     (case (if configsOrPromises = [] then None else Some (last configsOrPromises)) of
        Some (Config lastConfig) \<Rightarrow>
          butlast configsOrPromises
            @ [Config (lastConfig\<lparr>transformers := transformers lastConfig @ [JStr transformer]\<rparr>)]
      | other \<Rightarrow>
          configsOrPromises
            @ [Config \<lparr>transformers = [JStr transformer], configFilePath = None\<rparr>])"

definition settle :: "node_env \<Rightarrow> config_or_promise \<Rightarrow> js_error + config" where
  "settle env cp = (case cp of Config c \<Rightarrow> Inr c | ConfigPromise stream \<Rightarrow> readConfigFile env stream)"

subsection \<open>Printing the version\<close>

text \<open>
  \<^verbatim>\<open>const packageJson = await readJson(...); options.stdout.write(`${packageJson.version}\n`);
  return 0\<close>, which no \<^verbatim>\<open>try\<close> encloses.
\<close>

definition print_version :: "node_env \<Rightarrow> outcome" where
  "print_version env =
     (case readJson env (package_json env) of
        Inl e \<Rightarrow> rejected e
      | Inr JNull \<Rightarrow>
          rejected (TypeError ''Cannot read properties of null (reading version)'')
      | Inr (JObj kvs) \<Rightarrow>
          \<lparr>exit_code = Inr 0, stdout = [template env (get_prop kvs ''version'') @ [newline]],
           stderr = [], called = []\<rparr>
      | Inr other \<Rightarrow>
          \<lparr>exit_code = Inr 0, stdout = [template env None @ [newline]],
           stderr = [], called = []\<rparr>)"

subsection \<open>The entry point with \<^verbatim>\<open>--config\<close>\<close>

text \<open>
  What is written to the error stream before the \<^verbatim>\<open>try\<close> block is done with the document:
  the warning about reading a terminal, and the YAML warnings.
\<close>

definition tty_warning :: "string list \<Rightarrow> cmd_options \<Rightarrow> string list" where
  "tty_warning files opts =
     (if files = [] \<and> stdin_isTTY opts
      then [''Warning: No filename given.  Will read from stdin...'' @ [newline]]
      else [])"

definition openApiStream :: "string list \<Rightarrow> source" where
  "openApiStream files =
     (case files of
        [] \<Rightarrow> Stdin
      | file # excess \<Rightarrow> if file = ''-'' then Stdin else File file)"

definition failed :: "string list \<Rightarrow> nat list \<Rightarrow> string \<Rightarrow> outcome" where
  "failed warnings invoked line =
     \<lparr>exit_code = Inr 1, stdout = [], stderr = warnings @ [line @ [newline]], called = invoked\<rparr>"

text \<open>
  The rejections of the promises in \<^verbatim>\<open>configsOrPromises\<close> that come before the time \<open>t\<close>,
  in the order in which they come.  \<open>config_delays\<close> gives the settling time of each
  element by its index, as for \<^verbatim>\<open>Promise.all\<close>; a rejection at the time \<open>t\<close> itself is
  taken to come after what ends at \<open>t\<close>.
\<close>

definition early_rejections ::
  "node_env \<Rightarrow> nat list \<Rightarrow> config_or_promise list \<Rightarrow> nat \<Rightarrow> js_error list" where
  "early_rejections env config_delays configsOrPromises t =
     rejections (map (settle env) configsOrPromises)
       (filter (\<lambda>i. (if i < length config_delays then config_delays ! i else 0) < t)
          (completion_order config_delays (length configsOrPromises)))"

text \<open>
  The \<^verbatim>\<open>try\<close> block of the entry point and its \<^verbatim>\<open>catch\<close>, which writes \<^verbatim>\<open>`${err}\n`\<close> and
  returns 1.  \<open>config_delays\<close> and \<open>delays\<close> are the settling times for the two
  \<^verbatim>\<open>Promise.all\<close>: of the configurations, and of the transformers.  The document is
  awaited first; a configuration promise rejected while it is being read has no handler.
\<close>

definition transform_document ::
  "node_env \<Rightarrow> nat list \<Rightarrow> nat list \<Rightarrow> config_or_promise list \<Rightarrow> string list \<Rightarrow> cmd_options \<Rightarrow> run" where
  "transform_document env config_delays delays configsOrPromises files opts =
     (case early_rejections env config_delays configsOrPromises
             (read_time env (openApiStream files)) of
        unhandled # later \<Rightarrow> Unhandled unhandled
      | [] \<Rightarrow>
         (case readJsonOrYaml env (openApiStream files) of
            (yaml_warnings, read) \<Rightarrow>
              (let warnings = tty_warning files opts @ map (\<lambda>w. w @ [newline]) yaml_warnings in
               case read of
                 Inl err \<Rightarrow> Settled (failed warnings [] (error_toString env err))
               | Inr openApi \<Rightarrow>
                   (case promise_all config_delays (map (settle env) configsOrPromises) of
                      Inl err \<Rightarrow> Settled (failed warnings [] (error_toString env err))
                    | Inr configs \<Rightarrow>
                        (case applyTransformers env delays configs openApi of
                           (invoked, Inl err) \<Rightarrow>
                             Settled (failed warnings invoked (error_toString env err))
                         | (invoked, Inr newOpenApi) \<Rightarrow>
                             (case stdout_error env of
                                Some err \<Rightarrow>
                                  Settled (failed warnings invoked (error_toString env err))
                              | None \<Rightarrow>
                                  Settled
                                    \<lparr>exit_code = Inr 0,
                                     stdout = [JSON_stringify env newOpenApi @ [newline]],
                                     stderr = warnings, called = invoked\<rparr>))))))"

text \<open>
  The entry point.  An error of the option parser is caught and ends the call at once.
  With \<^verbatim>\<open>--version\<close> the package description is awaited, and a configuration promise
  rejected meanwhile has no handler either.
\<close>

definition openapiTransformerMain ::
  "node_env \<Rightarrow> nat list \<Rightarrow> nat list \<Rightarrow> js_args \<Rightarrow> js_options \<Rightarrow> run" where
  "openapiTransformerMain env config_delays delays args options =
     (case check_arguments args options of
        Inl e \<Rightarrow> Settled (rejected e)
      | Inr (argv, opts) \<Rightarrow>
          (case commander_parse env argv of
             CommanderError exitCode out err \<Rightarrow>
               Settled
                 \<lparr>exit_code = Inr (case exitCode of Some code \<Rightarrow> code | None \<Rightarrow> 1),
                  stdout = out, stderr = err, called = []\<rparr>
           | Parsed events version files \<Rightarrow>
               if version then
                 (case early_rejections env config_delays (foldl on_option [] events)
                         (read_time env (package_json env)) of
                    unhandled # later \<Rightarrow> Unhandled unhandled
                  | [] \<Rightarrow> Settled (print_version env))
               else transform_document env config_delays delays
                      (foldl on_option [] events) files opts))"

subsection \<open>The entry point with \<^verbatim>\<open>--transformer\<close> only\<close>

text \<open>
  The resolver of this revision takes and returns \<^verbatim>\<open>file:\<close> URLs:
  \<^verbatim>\<open>pathToFileURL(resolve(id.startsWith('file:') ? fileURLToPath(id) : id,
  parent ? { paths: [path.dirname(fileURLToPath(parent))] } : undefined)).href\<close>.
\<close>

definition makeResolver2 :: "node_env \<Rightarrow> string \<Rightarrow> string option \<Rightarrow> js_error + string" where
  "makeResolver2 env ident parent =
     (case (if take 5 ident = ''file:'' then fileURLToPath env ident else Inr ident) of
        Inl e \<Rightarrow> Inl e
      | Inr request \<Rightarrow>
          (case (case parent of
                   None \<Rightarrow> Inr None
                 | Some p \<Rightarrow>
                     if p = [] then Inr None
                     else (case fileURLToPath env p of
                             Inl e \<Rightarrow> Inl e
                           | Inr parentPath \<Rightarrow> Inr (Some [path_dirname env parentPath]))) of
             Inl e \<Rightarrow> Inl e
           | Inr resolveOptions \<Rightarrow>
               (case require_resolve env request resolveOptions of
                  Inl e \<Rightarrow> Inl e
                | Inr resolved \<Rightarrow> Inr (pathToFileURL env resolved))))"

text \<open>\<^verbatim>\<open>loadTransformer(name, parent)\<close>; the class is constructed without arguments.\<close>

definition loadTransformer :: "node_env \<Rightarrow> string \<Rightarrow> string option \<Rightarrow> js_error + transformer" where
  "loadTransformer env name parent =
     (case makeResolver2 env name parent of
        Inl e \<Rightarrow> Inl e
      | Inr resolved \<Rightarrow>
          (case import_module env resolved of
             Inl e \<Rightarrow> Inl e
           | Inr Transformer \<Rightarrow> Transformer []))"

text \<open>
  The option function of \<^verbatim>\<open>--transformer\<close>,
  \<^verbatim>\<open>(value, values) => (values ? [...values, value] : [value])\<close>.
\<close>

definition collect :: "string list option \<Rightarrow> string \<Rightarrow> string list option" where
  "collect values v = (case values of Some vs \<Rightarrow> Some (vs @ [v]) | None \<Rightarrow> Some [v])"

text \<open>\<^verbatim>\<open>const cwdUrl = pathToFileURL(path.resolve('dummy.js')).href\<close>.\<close>

definition cwdUrl :: "node_env \<Rightarrow> string" where
  "cwdUrl env = pathToFileURL env (path_resolve env ''dummy.js'')"

text \<open>
  The loop over \<^verbatim>\<open>Object.entries(transformerPs)\<close>: each promise is awaited when its turn
  comes, and whatever is thrown while awaiting it or transforming with it gets
  \<^verbatim>\<open>` applying transformer ${argOpts.transformer[i]}`\<close> appended to its message and is
  thrown again.  The list pairs each promise with the element of
  \<^verbatim>\<open>argOpts.transformer\<close> at its index.
\<close>

fun transform_loop2 ::
  "(string \<times> (js_error + transformer)) list \<Rightarrow> nat \<Rightarrow> json \<Rightarrow> nat list \<times> (js_error + json)" where
  "transform_loop2 [] i openApi = ([], Inr openApi)"
| "transform_loop2 ((name, transformerP) # rest) i openApi =
     (case transformerP of
        Inl errTransformer \<Rightarrow>
          ([], Inl (append_message errTransformer ('' applying transformer '' @ name)))
      | Inr transformer \<Rightarrow>
          (case transformer openApi of
             Inl errTransformer \<Rightarrow>
               ([i], Inl (append_message errTransformer ('' applying transformer '' @ name)))
           | Inr openApi' \<Rightarrow>
               (case transform_loop2 rest (Suc i) openApi' of
                  (invoked, result) \<Rightarrow> (i # invoked, result))))"

text \<open>
  The \<^verbatim>\<open>catch\<close> of this revision writes \<^verbatim>\<open>`${err.stack}\n`\<close>, the engine's text for the
  error as it is when it is caught, and returns 1; when reading \<^verbatim>\<open>err.stack\<close> throws,
  the promise of the entry point is rejected with what it throws.
\<close>

definition failed2 :: "node_env \<Rightarrow> string list \<Rightarrow> nat list \<Rightarrow> js_error \<Rightarrow> outcome" where
  "failed2 env warnings invoked err =
     (case error_stack env err of
        Inl e \<Rightarrow> \<lparr>exit_code = Inl e, stdout = [], stderr = warnings, called = invoked\<rparr>
      | Inr line \<Rightarrow> failed warnings invoked line)"

text \<open>
  The \<^verbatim>\<open>try\<close> block of this revision.  The promises of the transformers are given an
  empty \<^verbatim>\<open>catch\<close> as soon as they are made, so none of their rejections is unhandled.
\<close>

definition transform_document2 ::
  "node_env \<Rightarrow> string list \<Rightarrow> string list \<Rightarrow> cmd_options \<Rightarrow> outcome" where
  "transform_document2 env names files opts =
     (let transformerPs = map (\<lambda>t. loadTransformer env t (Some (cwdUrl env))) names in
      case readJsonOrYaml env (openApiStream files) of
        (yaml_warnings, read) \<Rightarrow>
          (let warnings = tty_warning files opts @ map (\<lambda>w. w @ [newline]) yaml_warnings in
           case read of
             Inl err \<Rightarrow> failed2 env warnings [] err
           | Inr openApi \<Rightarrow>
               (case transform_loop2 (zip names transformerPs) 0 openApi of
                  (invoked, Inl err) \<Rightarrow> failed2 env warnings invoked err
                | (invoked, Inr newOpenApi) \<Rightarrow>
                    (case stdout_error env of
                       Some err \<Rightarrow> failed2 env warnings invoked err
                     | None \<Rightarrow>
                         \<lparr>exit_code = Inr 0,
                          stdout = [JSON_stringify env newOpenApi @ [newline]],
                          stderr = warnings, called = invoked\<rparr>))))"

definition openapiTransformerMain2 :: "node_env \<Rightarrow> js_args \<Rightarrow> js_options \<Rightarrow> outcome" where
  "openapiTransformerMain2 env args options =
     (case check_arguments args options of
        Inl e \<Rightarrow> rejected e
      | Inr (argv, opts) \<Rightarrow>
          (case commander_parse2 env argv of
             VersionRequested \<Rightarrow> print_version env
           | CommanderError2 exitCode out err \<Rightarrow>
               \<lparr>exit_code = Inr (case exitCode of Some code \<Rightarrow> code | None \<Rightarrow> 1),
                stdout = out, stderr = err, called = []\<rparr>
           | Parsed2 vs files \<Rightarrow>
               transform_document2 env
                 (case foldl collect None vs of None \<Rightarrow> [] | Some names \<Rightarrow> names)
                 files opts))"

subsection \<open>Instantiation in the CommonJS revision\<close>

text \<open>
  \<^verbatim>\<open>createTransformersForConfig\<close> of the CommonJS revision: the search path is the
  directory of the configuration file, or \<^verbatim>\<open>process.cwd()\<close> when there is none, and each
  name goes through \<^verbatim>\<open>require.resolve(name, { paths: [searchPath] })\<close> and
  \<^verbatim>\<open>require\<close>.
\<close>

definition instantiate3 :: "node_env \<Rightarrow> string \<Rightarrow> json \<Rightarrow> js_error + transformer" where
  "instantiate3 env searchPath transformer =
     (case name_options transformer of
        (Some (JStr name), options) \<Rightarrow>
          (case require_resolve env name (Some [searchPath]) of
             Inl e \<Rightarrow> Inl e
           | Inr resolved \<Rightarrow>
               (case import_module env resolved of
                  Inl e \<Rightarrow> Inl e
                | Inr Transformer \<Rightarrow> Transformer options))
      | (other, options) \<Rightarrow> Inl (TypeError ''The id argument must be of type string''))"

definition searchPath :: "node_env \<Rightarrow> string option \<Rightarrow> string" where
  "searchPath env path =
     (case path of
        None \<Rightarrow> process_cwd env
      | Some p \<Rightarrow> if p = [] then process_cwd env else path_dirname env (path_resolve env p))"

definition createTransformersForConfig3 ::
  "node_env \<Rightarrow> config \<Rightarrow> (js_error + transformer) list" where
  "createTransformersForConfig3 env c =
     map (instantiate3 env (searchPath env (configFilePath c))) (transformers c)"

section \<open>What the specification names\<close>

text \<open>
  The shape the transformer entries of a configuration are specified to have: a string,
  or an array whose first element is a string.
\<close>

fun string_or_tuple :: "json \<Rightarrow> bool" where
  "string_or_tuple (JStr name) = True"
| "string_or_tuple (JArr (JStr name # options)) = True"
| "string_or_tuple other = False"


text \<open>
  The fold the pipeline is specified to be: the document goes through the transformers in
  the order of the list, each one taking what the one before it returned, and a failure
  stops it.
\<close>

definition fold_document :: "transformer list \<Rightarrow> json \<Rightarrow> js_error + json" where
  "fold_document instances openApi =
     foldl (\<lambda>current transformer.
              case current of Inl e \<Rightarrow> Inl e | Inr document \<Rightarrow> transformer document)
       (Inr openApi) instances"

section \<open>An example installation\<close>

text \<open>
  A small concrete environment on which the definitions above can be run: the command is
  installed under \<^verbatim>\<open>/opt/cli\<close>, the working directory is \<^verbatim>\<open>/work\<close>, and the standard
  input holds the document \<^verbatim>\<open>{}\<close>.  The parsers, the resolver and the option parser
  of this environment are simple stand-ins that know the files below and nothing else.
\<close>

definition example_files :: "(string \<times> string) list" where
  \<open>example_files =
     [(''/work/openapi.json'', ''{}''),
      (''/work/array.json'', ''[]''),
      (''/work/config.json'', ''{"transformers":["sync-transformer",["async-transformer","asyncArg"]]}''),
      (''/work/none.json'', ''{}''),
      (''/work/slow.json'', ''{}''),
      (''/work/empty.json'', ''{"transformers":[]}''),
      (''/work/blank.json'', ''{"transformers":[""]}''),
      (''/work/plugins.json'', ''{"plugins":[]}''),
      (''/work/number.json'', ''{"transformers":[1]}''),
      (''/opt/cli/package.json'', ''{"version":"1.0.0"}'')]\<close>

definition example_json :: "(string \<times> json) list" where
  \<open>example_json =
     [(''{}'', JObj []),
      (''[]'', JArr []),
      (''{"transformers":["sync-transformer",["async-transformer","asyncArg"]]}'',
         JObj [(''transformers'',
                JArr [JStr ''sync-transformer'',
                      JArr [JStr ''async-transformer'', JStr ''asyncArg'']])]),
      (''{"transformers":[]}'', JObj [(''transformers'', JArr [])]),
      (''{"transformers":[""]}'', JObj [(''transformers'', JArr [JStr []])]),
      (''{"plugins":[]}'', JObj [(''plugins'', JArr [])]),
      (''{"transformers":[1]}'', JObj [(''transformers'', JArr [JNum 1])]),
      (''{"version":"1.0.0"}'', JObj [(''version'', JStr ''1.0.0'')])]\<close>

definition example_path_resolve :: "string \<Rightarrow> string" where
  "example_path_resolve p = (if take 1 p = ''/'' then p else ''/work/'' @ p)"

definition example_dirname :: "string \<Rightarrow> string" where
  "example_dirname p =
     (let dir = rev (drop 1 (dropWhile (\<lambda>c. c \<noteq> CHR ''/'') (rev p)))
      in if dir = [] then ''/'' else dir)"

definition example_readString :: "source \<Rightarrow> js_error + string" where
  "example_readString stream =
     (case stream of
        Stdin \<Rightarrow> Inr ''{}''
      | File p \<Rightarrow>
          (case map_of example_files (example_path_resolve p) of
             Some contents \<Rightarrow> Inr contents
           | None \<Rightarrow>
               Inl (JsError ''Error'' ''ENOENT: no such file or directory'' [])))"

definition example_JSON_parse :: "string \<Rightarrow> js_error + json" where
  "example_JSON_parse s =
     (case map_of example_json s of
        Some v \<Rightarrow> Inr v
      | None \<Rightarrow>
          Inl (JsError ''SyntaxError'' ''Unexpected token'' []))"

definition example_loadYaml :: "string \<Rightarrow> string list \<times> (js_error + json)" where
  "example_loadYaml s =
     ([], Inl (ClassError ''YAMLException'' ''bad indentation'' []
                 (\<lambda>message. ''YAMLException: bad indentation'')))"

primrec example_stringify :: "json \<Rightarrow> string" where
  "example_stringify JNull = ''null''"
| "example_stringify (JBool b) = (if b then ''true'' else ''false'')"
| "example_stringify (JNum n) = (if n = 0 then ''0'' else if n = 1 then ''1'' else ''#'')"
| "example_stringify (JStr s) = CHR 0x22 # s @ [CHR 0x22]"
| "example_stringify (JArr xs) =
     ''['' @ concat (map (\<lambda>x. x @ '','') (map example_stringify xs)) @ '']''"
| "example_stringify (JObj kvs) =
     ''{'' @ concat (map (\<lambda>kv. CHR 0x22 # fst kv @ CHR 0x22 # '':'' @ snd kv @ '','')
                       (map (map_prod id example_stringify) kvs)) @ ''}''"

text \<open>The stand-in for the engine's stack text: the text of the error, then the call sites.\<close>

fun example_format_stack :: "js_error \<Rightarrow> string" where
  "example_format_stack (JsError n m f) =
     (if n = [] then m else if m = [] then n else n @ '': '' @ m) @ f"
| "example_format_stack (ClassError n m f own_toString) = own_toString m @ f"
| "example_format_stack (Thrown v) = []"

definition example_to_String :: "json option \<Rightarrow> string" where
  "example_to_String v = (case v of None \<Rightarrow> ''undefined'' | Some j \<Rightarrow> example_stringify j)"

text \<open>A transformer whose \<^verbatim>\<open>transformOpenApi\<close> always throws.\<close>

definition boom :: js_error where
  "boom = JsError ''Error'' ''boom''
            (newline # ''    at transformOpenApi (/work/bad.js:3:11)'')"

definition BadTransformer :: transformer_class where
  "BadTransformer args = Inr (\<lambda>openApi. Inl boom)"

definition example_modules :: "(string \<times> transformer_class) list" where
  "example_modules =
     [(''/opt/cli/node_modules/sync-transformer/index.js'', SyncTransformer),
      (''/opt/cli/node_modules/async-transformer/index.js'', AsyncTransformer),
      (''/work/node_modules/sync-transformer/index.js'', SyncTransformer),
      (''/work/node_modules/async-transformer/index.js'', AsyncTransformer),
      (''/work/t.js'', SyncTransformer),
      (''/work/bad.js'', BadTransformer)]"

text \<open>
  The stand-in for \<^verbatim>\<open>require.resolve(request, options)\<close>: an absolute path is taken as it
  is; a request starting with \<^verbatim>\<open>./\<close> is looked up in each root, any other request under
  \<^verbatim>\<open>node_modules\<close> of each root.  The roots are \<^verbatim>\<open>options.paths\<close>, and the directory of
  the command's own module when no options are given.
\<close>

definition example_require_resolve :: "string \<Rightarrow> string list option \<Rightarrow> js_error + string" where
  "example_require_resolve request paths =
     (if request = []
      then Inl (JsError ''TypeError'' ''The argument id must be a non-empty string'' [])
      else
        (let roots = (case paths of None \<Rightarrow> [''/opt/cli''] | Some ps \<Rightarrow> ps);
             candidates =
               (if take 1 request = ''/'' then [request]
                else if take 2 request = ''./''
                then map (\<lambda>root. root @ ''/'' @ drop 2 request) roots
                else map (\<lambda>root. root @ ''/node_modules/'' @ request @ ''/index.js'') roots)
         in case filter (\<lambda>c. c \<in> set (map fst example_modules)) candidates of
              found # others \<Rightarrow> Inr found
            | [] \<Rightarrow>
                Inl (JsError ''Error'' (''Cannot find module '' @ [quote] @ request @ [quote])
                       [])))"

definition example_fileURLToPath :: "string \<Rightarrow> js_error + string" where
  "example_fileURLToPath url =
     (if take 7 url = ''file://'' then Inr (drop 7 url)
      else Inl (JsError ''TypeError'' ''The URL must be of scheme file'' []))"

definition example_import :: "string \<Rightarrow> js_error + transformer_class" where
  "example_import resolved =
     (case map_of example_modules
             (if take 7 resolved = ''file://'' then drop 7 resolved else resolved) of
        Some Transformer \<Rightarrow> Inr Transformer
      | None \<Rightarrow> Inl (JsError ''Error'' ''Cannot find module'' []))"

text \<open>
  The stand-in for the option parser, on the arguments after the first two: \<^verbatim>\<open>-t\<close> and
  \<^verbatim>\<open>-c\<close> with their long forms take the next argument, \<^verbatim>\<open>--version\<close> sets the flag,
  \<^verbatim>\<open>--help\<close> prints the usage and stops with exit code 0, any other option is an error.
\<close>

definition example_step ::
  "string option \<times> parse_outcome \<Rightarrow> string \<Rightarrow> string option \<times> parse_outcome" where
  "example_step st a =
     (case st of
        (pending, CommanderError exitCode out err) \<Rightarrow> st
      | (Some opt, Parsed events version files) \<Rightarrow>
          (None, Parsed (events @ [if opt = ''-c'' then OptConfig a else OptTransformer a])
                   version files)
      | (None, Parsed events version files) \<Rightarrow>
          if a = ''--transformer'' \<or> a = ''-t'' then (Some ''-t'', Parsed events version files)
          else if a = ''--config'' \<or> a = ''-c'' then (Some ''-c'', Parsed events version files)
          else if a = ''--version'' \<or> a = ''-V'' then (None, Parsed events True files)
          else if a = ''--help'' \<or> a = ''-h'' then
            (None, CommanderError (Some 0)
                     [''Usage: openapi-transformer [options] [openapi_file]'' @ [newline]] [])
          else if a \<noteq> ''-'' \<and> take 1 a = ''-'' then
            (None, CommanderError (Some 1) []
                     [''error: unknown option '' @ [quote] @ a @ [quote] @ [newline]])
          else (None, Parsed events version (files @ [a])))"

definition example_parse :: "string list \<Rightarrow> parse_outcome" where
  "example_parse argv =
     (case foldl example_step (None, Parsed [] False []) (drop 2 argv) of
        (pending, CommanderError exitCode out err) \<Rightarrow> CommanderError exitCode out err
      | (Some opt, Parsed events version files) \<Rightarrow>
          CommanderError (Some 1) [] [''error: option argument missing'' @ [newline]]
      | (None, Parsed events version files) \<Rightarrow>
          if length files > 1
          then CommanderError (Some 1) [] [''error: too many arguments'' @ [newline]]
          else Parsed events version files)"

definition example_parse2 :: "string list \<Rightarrow> parse_outcome2" where
  "example_parse2 argv =
     (case example_parse argv of
        CommanderError exitCode out err \<Rightarrow> CommanderError2 exitCode out err
      | Parsed events version files \<Rightarrow>
          if version then VersionRequested
          else if \<exists>e \<in> set events. case e of OptConfig f \<Rightarrow> True | OptTransformer t \<Rightarrow> False
          then CommanderError2 (Some 1) []
                 [''error: unknown option '' @ [quote] @ ''--config'' @ [quote] @ [newline]]
          else Parsed2
                 (concat (map (\<lambda>e. case e of OptTransformer t \<Rightarrow> [t] | OptConfig f \<Rightarrow> []) events))
                 files)"

definition example_env :: node_env where
  "example_env =
     \<lparr>readString = example_readString,
      read_time = (\<lambda>stream. if stream = File ''slow.json'' then 5 else 0),
      JSON_parse = example_JSON_parse,
      loadYaml = example_loadYaml,
      JSON_stringify = example_stringify,
      to_String = example_to_String,
      format_stack = example_format_stack,
      import_meta_resolve = None,
      require_resolve = example_require_resolve,
      import_module = example_import,
      process_cwd = ''/work'',
      path_resolve = example_path_resolve,
      path_dirname = example_dirname,
      pathToFileURL = (\<lambda>p. ''file://'' @ p),
      fileURLToPath = example_fileURLToPath,
      commander_parse = example_parse,
      commander_parse2 = example_parse2,
      package_json = File ''/opt/cli/package.json'',
      stdout_error = None\<rparr>"

definition example_options :: js_options where
  "example_options =
     Options \<lparr>stdin_readable = True, stdout_writable = True, stderr_writable = True,
              stdin_isTTY = False\<rparr>"

section \<open>Evaluating the example installation\<close>

lemmas example_defs =
  example_env_def example_readString_def example_JSON_parse_def example_loadYaml_def
  example_files_def example_json_def example_path_resolve_def example_dirname_def
  example_require_resolve_def example_import_def example_modules_def
  example_fileURLToPath_def example_parse_def example_parse2_def example_step_def
  example_options_def example_to_String_def

lemmas read_defs = readJson_def readJsonOrYaml_def filename_def

lemmas main_defs =
  openapiTransformerMain_def check_arguments_def transform_document_def
  openApiStream_def tty_warning_def failed_def rejected_def settle_def
  early_rejections_def new_error_def

lemmas load_defs =
  applyTransformers_def createTransformersForConfig_def instantiate_def
  resolveParent_def resolveTransformer_def makeResolver_def
  promise_all_def completion_order_def rejections_def fulfilled_def

section \<open>Configuration validation\<close>

lemma check_keys_None: "check_keys keys = None \<longleftrightarrow> (\<forall>key \<in> set keys. key = ''transformers'')"
  by (induction keys) auto

lemma check_keys_Some:
  "check_keys keys = Some e \<Longrightarrow>
     \<exists>key \<in> set keys. key \<noteq> ''transformers'' \<and>
       e = Error (''unrecognized key '' @ [quote] @ key @ [quote] @ '' in config'')"
  by (induction keys) (auto split: if_splits)

lemma check_transformer_None: "check_transformer t = None \<longleftrightarrow> string_or_tuple t"
  by (induction t rule: check_transformer.induct) auto

lemma check_transformers_None:
  "check_transformers ts = None \<longleftrightarrow> (\<forall>t \<in> set ts. string_or_tuple t)"
  by (induction ts) (auto simp: check_transformer_None [symmetric] split: option.splits)

lemma check_transformers_Some:
  "check_transformers ts = Some e \<Longrightarrow> \<exists>t \<in> set ts. check_transformer t = Some e"
  by (induction ts) (auto split: option.splits)

lemma check_transformer_Some:
  "check_transformer t = Some e \<Longrightarrow>
     (t = JArr [] \<and> e = Error ''config.transformers tuples must at least 1 element'') \<or>
     ((\<exists>first options. t = JArr (first # options) \<and> (\<forall>s. first \<noteq> JStr s)) \<and>
        e = TypeError ''config.transformers tuple first item must be a string'') \<or>
     ((\<forall>xs. t \<noteq> JArr xs) \<and> (\<forall>s. t \<noteq> JStr s) \<and>
        e = TypeError ''config.transformers items must be strings or Arrays'')"
  by (induction t rule: check_transformer.induct) auto

lemma readConfigFile_valid:
  assumes "readJson env stream = Inr (JObj [(''transformers'', JArr ts)])"
    and "\<forall>t \<in> set ts. string_or_tuple t"
  shows "readConfigFile env stream =
           Inr \<lparr>transformers = ts, configFilePath = stream_path stream\<rparr>"
proof -
  have "check_transformers ts = None"
    using assms(2) by (simp add: check_transformers_None)
  then show ?thesis
    using assms(1) by (simp add: readConfigFile_def get_prop_def)
qed

lemma readConfigFile_missing_transformers:
  "readJson env stream = Inr (JObj []) \<Longrightarrow>
     readConfigFile env stream = Inl (TypeError ''transformers is not iterable'')"
  by (simp add: readConfigFile_def get_prop_def)

text \<open>
  C8.  A parsed configuration object with a top-level key other than \<open>transformers\<close> is
  rejected with an error that names such a key.  An object with no other key whose
  \<open>transformers\<close> array has an entry that is neither a string nor an array starting with
  a string is rejected with the error for the shape of such an entry: an empty array,
  an array whose first element is not a string, or a value that is neither an array
  nor a string.
\<close>

theorem readConfigFile_closed_schema:
  assumes "readJson env stream = Inr (JObj kvs)"
  shows "((\<exists>key \<in> set (map fst kvs). key \<noteq> ''transformers'') \<longrightarrow>
            (\<exists>key \<in> set (map fst kvs). key \<noteq> ''transformers'' \<and>
               readConfigFile env stream =
                 Inl (Error (''unrecognized key '' @ [quote] @ key @ [quote] @ '' in config''))))
       \<and> ((\<forall>key \<in> set (map fst kvs). key = ''transformers'') \<and>
            get_prop kvs ''transformers'' = Some (JArr ts) \<and>
            (\<exists>t \<in> set ts. \<not> string_or_tuple t) \<longrightarrow>
            (\<exists>t \<in> set ts. \<not> string_or_tuple t \<and>
               ((t = JArr [] \<and>
                 readConfigFile env stream =
                   Inl (Error ''config.transformers tuples must at least 1 element'')) \<or>
                ((\<exists>first options. t = JArr (first # options) \<and> (\<forall>s. first \<noteq> JStr s)) \<and>
                 readConfigFile env stream =
                   Inl (TypeError ''config.transformers tuple first item must be a string'')) \<or>
                ((\<forall>xs. t \<noteq> JArr xs) \<and> (\<forall>s. t \<noteq> JStr s) \<and>
                 readConfigFile env stream =
                   Inl (TypeError ''config.transformers items must be strings or Arrays'')))))"
proof (intro conjI impI)
  assume "\<exists>key \<in> set (map fst kvs). key \<noteq> ''transformers''"
  then have "check_keys (map fst kvs) \<noteq> None"
    by (simp add: check_keys_None)
  then obtain e where e: "check_keys (map fst kvs) = Some e"
    by auto
  from check_keys_Some [OF e] obtain key where
    "key \<in> set (map fst kvs)" "key \<noteq> ''transformers''"
    "e = Error (''unrecognized key '' @ [quote] @ key @ [quote] @ '' in config'')"
    by blast
  moreover have "readConfigFile env stream = Inl e"
    using assms e by (simp add: readConfigFile_def)
  ultimately show "\<exists>key \<in> set (map fst kvs). key \<noteq> ''transformers'' \<and>
      readConfigFile env stream =
        Inl (Error (''unrecognized key '' @ [quote] @ key @ [quote] @ '' in config''))"
    by blast
next
  assume a: "(\<forall>key \<in> set (map fst kvs). key = ''transformers'') \<and>
    get_prop kvs ''transformers'' = Some (JArr ts) \<and> (\<exists>t \<in> set ts. \<not> string_or_tuple t)"
  then have keys: "check_keys (map fst kvs) = None"
    by (simp add: check_keys_None)
  from a have "check_transformers ts \<noteq> None"
    by (simp add: check_transformers_None)
  then obtain e where e: "check_transformers ts = Some e"
    by auto
  from check_transformers_Some [OF e] obtain t where
    t: "t \<in> set ts" "check_transformer t = Some e"
    by blast
  have bad: "\<not> string_or_tuple t"
    using t(2) check_transformer_None [of t] by simp
  have r: "readConfigFile env stream = Inl e"
    using assms a keys e by (simp add: readConfigFile_def)
  from check_transformer_Some [OF t(2)] t(1) bad r
  show "\<exists>t \<in> set ts. \<not> string_or_tuple t \<and>
      ((t = JArr [] \<and>
        readConfigFile env stream =
          Inl (Error ''config.transformers tuples must at least 1 element'')) \<or>
       ((\<exists>first options. t = JArr (first # options) \<and> (\<forall>s. first \<noteq> JStr s)) \<and>
        readConfigFile env stream =
          Inl (TypeError ''config.transformers tuple first item must be a string'')) \<or>
       ((\<forall>xs. t \<noteq> JArr xs) \<and> (\<forall>s. t \<noteq> JStr s) \<and>
        readConfigFile env stream =
          Inl (TypeError ''config.transformers items must be strings or Arrays'')))"
    by blast
qed

lemma example_readJson_plugins:
  "readJson example_env (File ''plugins.json'') = Inr (JObj [(''plugins'', JArr [])])"
  by (simp add: read_defs example_defs)

lemma example_readJson_number:
  "readJson example_env (File ''number.json'') = Inr (JObj [(''transformers'', JArr [JNum 1])])"
  by (simp add: read_defs example_defs)

theorem readConfigFile_closed_schema_witness:
  "readConfigFile example_env (File ''plugins.json'') =
     Inl (Error (''unrecognized key '' @ [quote] @ ''plugins'' @ [quote] @ '' in config''))
   \<and> readConfigFile example_env (File ''number.json'') =
     Inl (TypeError ''config.transformers items must be strings or Arrays'')"
proof
  show "readConfigFile example_env (File ''plugins.json'') =
     Inl (Error (''unrecognized key '' @ [quote] @ ''plugins'' @ [quote] @ '' in config''))"
    using readConfigFile_closed_schema [OF example_readJson_plugins, of "[]"] by simp
  show "readConfigFile example_env (File ''number.json'') =
     Inl (TypeError ''config.transformers items must be strings or Arrays'')"
    using readConfigFile_closed_schema [OF example_readJson_number, of "[JNum 1]"]
    by (simp add: get_prop_def)
qed

text \<open>
  C7.  With the configuration file \<^verbatim>\<open>none.json\<close>, whose content is the object \<^verbatim>\<open>{}\<close>,
  \<^verbatim>\<open>readConfigFile\<close> does not return: the loop over the missing \<open>transformers\<close> throws,
  and the run ends with exit code 1 and nothing on the output stream.  A configuration
  with an empty \<open>transformers\<close> array, \<^verbatim>\<open>empty.json\<close>, is read and the document comes
  out as it went in.
\<close>

theorem missing_transformers_is_rejected:
  "readConfigFile example_env (File ''none.json'') =
     Inl (TypeError ''transformers is not iterable'')
   \<and> openapiTransformerMain example_env [] []
       (ArgsArray [''node'', ''openapi-transformer'', ''--config'', ''none.json''])
       example_options =
     Settled
       \<lparr>exit_code = Inr 1, stdout = [],
        stderr = [''TypeError: transformers is not iterable'' @ [newline]], called = []\<rparr>
   \<and> openapiTransformerMain example_env [] []
       (ArgsArray [''node'', ''openapi-transformer'', ''--config'', ''empty.json''])
       example_options =
     Settled \<lparr>exit_code = Inr 0, stdout = [''{}'' @ [newline]], stderr = [], called = []\<rparr>"
proof (intro conjI)
  have none: "readJson example_env (File ''none.json'') = Inr (JObj [])"
    by (simp add: read_defs example_defs)
  show r: "readConfigFile example_env (File ''none.json'') =
      Inl (TypeError ''transformers is not iterable'')"
    using none by (rule readConfigFile_missing_transformers)
  show "openapiTransformerMain example_env [] []
       (ArgsArray [''node'', ''openapi-transformer'', ''--config'', ''none.json''])
       example_options =
     Settled
       \<lparr>exit_code = Inr 1, stdout = [],
        stderr = [''TypeError: transformers is not iterable'' @ [newline]], called = []\<rparr>"
    by (simp add: main_defs load_defs read_defs readConfigFile_def get_prop_def example_defs)
  show "openapiTransformerMain example_env [] []
       (ArgsArray [''node'', ''openapi-transformer'', ''--config'', ''empty.json''])
       example_options =
     Settled \<lparr>exit_code = Inr 0, stdout = [''{}'' @ [newline]], stderr = [], called = []\<rparr>"
    by (simp add: main_defs load_defs read_defs readConfigFile_def get_prop_def example_defs)
qed




section \<open>The fold\<close>

lemma promise_all_Nil: "promise_all delays [] = Inr []"
  by (simp add: promise_all_def completion_order_def rejections_def fulfilled_def
      List.map_filter_simps)

text \<open>
  C9.  When no configuration lists a transformer (in particular, when there is no
  configuration at all), \<^verbatim>\<open>applyTransformers\<close> calls no transformer and returns the
  document it was given.
\<close>

theorem applyTransformers_no_transformers:
  assumes "\<forall>c \<in> set configs. transformers c = []"
  shows "applyTransformers env delays configs openApi = ([], Inr openApi)"
proof -
  have none: "concat (map (createTransformersForConfig env) configs) = []"
    using assms by (simp add: createTransformersForConfig_def)
  show ?thesis
    unfolding applyTransformers_def none promise_all_Nil by simp
qed

theorem applyTransformers_no_transformers_witness:
  "applyTransformers example_env [] [] (JObj [(''openapi'', JStr ''3.0.2'')]) =
     ([], Inr (JObj [(''openapi'', JStr ''3.0.2'')]))
   \<and> applyTransformers example_env []
       [\<lparr>transformers = [], configFilePath = Some ''empty.json''\<rparr>] (JArr [JNum 1]) =
     ([], Inr (JArr [JNum 1]))"
  using applyTransformers_no_transformers [of "[]" example_env "[]" "JObj [(''openapi'', JStr ''3.0.2'')]"]
    applyTransformers_no_transformers
      [of "[\<lparr>transformers = [], configFilePath = Some ''empty.json''\<rparr>]" example_env "[]" "JArr [JNum 1]"]
  by simp

subsection \<open>Promise.all keeps the order of the array\<close>

lemma map_filter_empty: "(\<forall>x \<in> set xs. f x = None) \<Longrightarrow> List.map_filter f xs = []"
  by (induction xs) auto


lemma set_completion_order: "set (completion_order delays n) = {0..<n}"
  by (simp add: completion_order_def)

lemma fulfilled_map_Inr: "fulfilled (map Inr vs) = vs"
  by (induction vs) (auto simp: fulfilled_def)

lemma promise_all_fulfilled: "promise_all delays (map Inr vs) = Inr vs"
proof -
  have "rejections (map Inr vs) (completion_order delays (length (map Inr vs))) = []"
    unfolding rejections_def
    by (rule map_filter_empty) (simp add: set_completion_order)
  then show ?thesis
    by (simp add: promise_all_def fulfilled_map_Inr)
qed


subsection \<open>The loops against the fold\<close>

lemma fold_failed:
  "foldl (\<lambda>current transformer.
            case current of Inl e \<Rightarrow> Inl e | Inr document \<Rightarrow> transformer document)
     (Inl e) instances = Inl e"
  by (induction instances) auto

lemma fold_document_Nil: "fold_document [] openApi = Inr openApi"
  by (simp add: fold_document_def)

lemma fold_document_Cons:
  "fold_document (t # rest) openApi =
     (case t openApi of Inl e \<Rightarrow> Inl e | Inr document \<Rightarrow> fold_document rest document)"
  by (cases "t openApi") (simp_all add: fold_document_def fold_failed)

lemma fold_document_Cons_Inr:
  assumes "fold_document (t # rest) openApi = Inr document"
  obtains next_document where "t openApi = Inr next_document"
    and "fold_document rest next_document = Inr document"
  using assms by (cases "t openApi") (simp_all add: fold_document_Cons)

lemma upt_Cons_same: "i # [Suc i ..< Suc (i + n)] = [i ..< Suc (i + n)]"
  by (simp add: upt_conv_Cons del: upt_Suc)

lemma transform_loop_success:
  "fold_document instances openApi = Inr document \<Longrightarrow>
     transform_loop instances i openApi = ([i ..< i + length instances], Inr document)"
proof (induction instances arbitrary: i openApi)
  case Nil
  then show ?case by (simp add: fold_document_Nil)
next
  case (Cons t rest)
  from Cons.prems obtain next_document where
    t: "t openApi = Inr next_document" and r: "fold_document rest next_document = Inr document"
    by (rule fold_document_Cons_Inr)
  have "transform_loop rest (Suc i) next_document =
      ([Suc i ..< Suc i + length rest], Inr document)"
    using r by (rule Cons.IH)
  with t show ?case
    by (simp add: upt_Cons_same del: upt_Suc)
qed


lemma transform_loop2_success:
  "map snd entries = map Inr instances \<Longrightarrow> fold_document instances openApi = Inr document \<Longrightarrow>
     transform_loop2 entries i openApi = ([i ..< i + length entries], Inr document)"
proof (induction entries arbitrary: instances i openApi)
  case Nil
  then show ?case by (simp add: fold_document_Nil)
next
  case (Cons entry rest)
  obtain name transformerP where entry: "entry = (name, transformerP)"
    by (cases entry)
  from Cons.prems(1) entry obtain t others where
    instances: "instances = t # others" and p: "transformerP = Inr t"
    and rest: "map snd rest = map Inr others"
    by (cases instances) auto
  from Cons.prems(2) instances obtain next_document where
    t: "t openApi = Inr next_document" and r: "fold_document others next_document = Inr document"
    by (auto elim: fold_document_Cons_Inr)
  have "transform_loop2 rest (Suc i) next_document =
      ([Suc i ..< Suc i + length rest], Inr document)"
    using rest r by (rule Cons.IH)
  with entry p t show ?case
    by (simp add: upt_Cons_same del: upt_Suc)
qed


lemma map_snd_zip_map: "map snd (zip xs (map f xs)) = map f xs"
  by (induction xs) auto

lemma length_map_Inr: "map f xs = map Inr ys \<Longrightarrow> length xs = length ys"
  using length_map by metis

text \<open>
  C4.  Whatever the times at which the loads settle, when every transformer loads and
  the fold of the document through the instances, taken in the order of their
  references, gives a document, \<^verbatim>\<open>applyTransformers\<close> calls every transformer, in that
  order, and returns that document.  For two references this reads: when A's transform
  gives \<open>afterA\<close> on the document and B's gives \<open>afterB\<close> on \<open>afterA\<close>, the result is
  \<open>afterB\<close> and the calls are A's, then B's.  The same holds for the loop of the other
  revision, which awaits the promises one by one.
\<close>

theorem applyTransformers_declared_order:
  "(concat (map (createTransformersForConfig env) configs) = map Inr instances \<and>
    fold_document instances openApi = Inr document \<longrightarrow>
      applyTransformers env delays configs openApi = ([0 ..< length instances], Inr document))
   \<and> (concat (map (createTransformersForConfig env) configs) = [Inr a, Inr b] \<and>
      a openApi = Inr afterA \<and> b afterA = Inr afterB \<longrightarrow>
      applyTransformers env delays configs openApi = ([0, 1], Inr afterB))
   \<and> (map (\<lambda>t. loadTransformer env t (Some (cwdUrl env))) names = map Inr instances \<and>
      fold_document instances openApi = Inr document \<longrightarrow>
      transform_loop2
        (zip names (map (\<lambda>t. loadTransformer env t (Some (cwdUrl env))) names)) 0 openApi =
        ([0 ..< length instances], Inr document))
   \<and> (loadTransformer env nameA (Some (cwdUrl env)) = Inr a \<and>
      loadTransformer env nameB (Some (cwdUrl env)) = Inr b \<and>
      a openApi = Inr afterA \<and> b afterA = Inr afterB \<longrightarrow>
      transform_loop2
        (zip [nameA, nameB]
           (map (\<lambda>t. loadTransformer env t (Some (cwdUrl env))) [nameA, nameB])) 0 openApi =
        ([0, 1], Inr afterB))"
proof (intro conjI impI)
  assume "concat (map (createTransformersForConfig env) configs) = map Inr instances \<and>
    fold_document instances openApi = Inr document"
  then show "applyTransformers env delays configs openApi =
      ([0 ..< length instances], Inr document)"
    using transform_loop_success [of instances openApi document 0]
    by (simp add: applyTransformers_def promise_all_fulfilled)
next
  assume a: "concat (map (createTransformersForConfig env) configs) = [Inr a, Inr b] \<and>
    a openApi = Inr afterA \<and> b afterA = Inr afterB"
  then have "concat (map (createTransformersForConfig env) configs) = map Inr [a, b]"
    by simp
  then have "applyTransformers env delays configs openApi = transform_loop [a, b] 0 openApi"
    by (simp only: applyTransformers_def promise_all_fulfilled sum.case)
  with a show "applyTransformers env delays configs openApi = ([0, 1], Inr afterB)"
    by simp
next
  let ?load = "\<lambda>t. loadTransformer env t (Some (cwdUrl env))"
  assume a: "map ?load names = map Inr instances \<and>
    fold_document instances openApi = Inr document"
  have "map snd (zip names (map ?load names)) = map ?load names"
    by (rule map_snd_zip_map)
  also from a have "\<dots> = map Inr instances"
    by (rule conjunct1)
  finally have "map snd (zip names (map ?load names)) = map Inr instances" .
  moreover from a have "length names = length instances"
    by (blast dest: length_map_Inr)
  ultimately show "transform_loop2 (zip names (map ?load names)) 0 openApi =
      ([0 ..< length instances], Inr document)"
    using a transform_loop2_success [of "zip names (map ?load names)" instances openApi document 0]
    by simp
next
  assume "loadTransformer env nameA (Some (cwdUrl env)) = Inr a \<and>
    loadTransformer env nameB (Some (cwdUrl env)) = Inr b \<and>
    a openApi = Inr afterA \<and> b afterA = Inr afterB"
  then show "transform_loop2
      (zip [nameA, nameB]
         (map (\<lambda>t. loadTransformer env t (Some (cwdUrl env))) [nameA, nameB])) 0 openApi =
      ([0, 1], Inr afterB)"
    by simp
qed

lemma example_instantiate_sync:
  "instantiate example_env None (JStr ''sync-transformer'') = SyncTransformer []"
  by (simp add: load_defs example_defs)

lemma example_instantiate_async:
  "instantiate example_env None (JStr ''async-transformer'') = AsyncTransformer []"
  by (simp add: load_defs example_defs)

lemmas transformer_defs =
  SyncTransformer_def AsyncTransformer_def transformOpenApi_def get_prop_def

lemmas load2_defs = loadTransformer_def makeResolver2_def cwdUrl_def

lemma example_load_sync:
  "loadTransformer example_env ''sync-transformer'' (Some (cwdUrl example_env)) =
     Inr (transformOpenApi ''sync-transformer'' [])"
  by (simp add: load2_defs SyncTransformer_def example_defs)

lemma example_load_async:
  "loadTransformer example_env ''async-transformer'' (Some (cwdUrl example_env)) =
     Inr (transformOpenApi ''async-transformer'' [])"
  by (simp add: load2_defs AsyncTransformer_def example_defs)

theorem applyTransformers_declared_order_witness:
  "applyTransformers example_env [5, 1]
     [\<lparr>transformers = [JStr ''sync-transformer'', JStr ''async-transformer''],
       configFilePath = None\<rparr>] (JObj []) =
   ([0, 1],
    Inr (JObj [(''x-transformers'',
                JArr [JArr [JStr ''sync-transformer''], JArr [JStr ''async-transformer'']])]))
   \<and> applyTransformers example_env [2, 0, 1]
       [\<lparr>transformers = [JStr ''async-transformer''], configFilePath = None\<rparr>,
        \<lparr>transformers = [JStr ''sync-transformer'', JStr ''async-transformer''],
         configFilePath = None\<rparr>] (JObj []) =
     ([0, 1, 2],
      Inr (JObj [(''x-transformers'',
                  JArr [JArr [JStr ''async-transformer''], JArr [JStr ''sync-transformer''],
                        JArr [JStr ''async-transformer'']])]))
   \<and> transform_loop2
       (zip [''async-transformer'', ''sync-transformer'']
          (map (\<lambda>t. loadTransformer example_env t (Some (cwdUrl example_env)))
             [''async-transformer'', ''sync-transformer''])) 0 (JObj []) =
     ([0, 1],
      Inr (JObj [(''x-transformers'',
                  JArr [JArr [JStr ''async-transformer''], JArr [JStr ''sync-transformer'']])]))
   \<and> transform_loop2
       (zip [''sync-transformer'', ''sync-transformer'', ''async-transformer'']
          (map (\<lambda>t. loadTransformer example_env t (Some (cwdUrl example_env)))
             [''sync-transformer'', ''sync-transformer'', ''async-transformer''])) 0 (JObj []) =
     ([0, 1, 2],
      Inr (JObj [(''x-transformers'',
                  JArr [JArr [JStr ''sync-transformer''], JArr [JStr ''sync-transformer''],
                        JArr [JStr ''async-transformer'']])]))"
proof (intro conjI)
  let ?sync = "transformOpenApi ''sync-transformer'' []"
  let ?async = "transformOpenApi ''async-transformer'' []"
  let ?load = "\<lambda>t. loadTransformer example_env t (Some (cwdUrl example_env))"
  let ?one = "JObj [(''x-transformers'', JArr [JArr [JStr ''sync-transformer'']])]"
  let ?two = "JObj [(''x-transformers'',
                     JArr [JArr [JStr ''sync-transformer''], JArr [JStr ''async-transformer'']])]"
  have loads: "concat (map (createTransformersForConfig example_env)
      [\<lparr>transformers = [JStr ''sync-transformer'', JStr ''async-transformer''],
        configFilePath = None\<rparr>]) = [Inr ?sync, Inr ?async]"
    by (simp add: createTransformersForConfig_def resolveParent_def
        example_instantiate_sync example_instantiate_async
        SyncTransformer_def AsyncTransformer_def)
  have s: "?sync (JObj []) = Inr ?one"
    by (simp add: transformer_defs)
  have a: "?async ?one = Inr ?two"
    by (simp add: transformer_defs)
  from applyTransformers_declared_order
    [where env = example_env and delays = "[5, 1]" and openApi = "JObj []",
      THEN conjunct2, THEN conjunct1, rule_format, OF conjI [OF loads conjI [OF s a]]]
  show "applyTransformers example_env [5, 1]
     [\<lparr>transformers = [JStr ''sync-transformer'', JStr ''async-transformer''],
       configFilePath = None\<rparr>] (JObj []) = ([0, 1], Inr ?two)" .
  let ?three = "JObj [(''x-transformers'',
                  JArr [JArr [JStr ''async-transformer''], JArr [JStr ''sync-transformer''],
                        JArr [JStr ''async-transformer'']])]"
  have loads3: "concat (map (createTransformersForConfig example_env)
      [\<lparr>transformers = [JStr ''async-transformer''], configFilePath = None\<rparr>,
       \<lparr>transformers = [JStr ''sync-transformer'', JStr ''async-transformer''],
        configFilePath = None\<rparr>]) = map Inr [?async, ?sync, ?async]"
    by (simp add: createTransformersForConfig_def resolveParent_def
        example_instantiate_sync example_instantiate_async
        SyncTransformer_def AsyncTransformer_def)
  have fold3: "fold_document [?async, ?sync, ?async] (JObj []) = Inr ?three"
    by (simp add: fold_document_def transformer_defs)
  from applyTransformers_declared_order
    [where env = example_env and delays = "[2, 0, 1]" and openApi = "JObj []",
      THEN conjunct1, rule_format, OF conjI [OF loads3 fold3]]
  show "applyTransformers example_env [2, 0, 1]
       [\<lparr>transformers = [JStr ''async-transformer''], configFilePath = None\<rparr>,
        \<lparr>transformers = [JStr ''sync-transformer'', JStr ''async-transformer''],
         configFilePath = None\<rparr>] (JObj []) = ([0, 1, 2], Inr ?three)"
    by simp
  let ?ba = "JObj [(''x-transformers'',
                  JArr [JArr [JStr ''async-transformer''], JArr [JStr ''sync-transformer'']])]"
  let ?b = "JObj [(''x-transformers'', JArr [JArr [JStr ''async-transformer'']])]"
  have a0: "?async (JObj []) = Inr ?b"
    by (simp add: transformer_defs)
  have s1: "?sync ?b = Inr ?ba"
    by (simp add: transformer_defs)
  from applyTransformers_declared_order
    [where env = example_env and openApi = "JObj []",
      THEN conjunct2, THEN conjunct2, THEN conjunct2, rule_format,
      OF conjI [OF example_load_async conjI [OF example_load_sync conjI [OF a0 s1]]]]
  show "transform_loop2
       (zip [''async-transformer'', ''sync-transformer'']
          (map ?load [''async-transformer'', ''sync-transformer''])) 0 (JObj []) =
     ([0, 1], Inr ?ba)" .
  let ?ssa = "JObj [(''x-transformers'',
                  JArr [JArr [JStr ''sync-transformer''], JArr [JStr ''sync-transformer''],
                        JArr [JStr ''async-transformer'']])]"
  have loads2: "map ?load [''sync-transformer'', ''sync-transformer'', ''async-transformer''] =
      map Inr [?sync, ?sync, ?async]"
    by (simp add: example_load_sync example_load_async)
  have fold2: "fold_document [?sync, ?sync, ?async] (JObj []) = Inr ?ssa"
    by (simp add: fold_document_def transformer_defs)
  from applyTransformers_declared_order
    [where env = example_env and openApi = "JObj []",
      THEN conjunct2, THEN conjunct2, THEN conjunct1, rule_format, OF conjI [OF loads2 fold2]]
  show "transform_loop2
       (zip [''sync-transformer'', ''sync-transformer'', ''async-transformer'']
          (map ?load [''sync-transformer'', ''sync-transformer'', ''async-transformer''])) 0
       (JObj []) = ([0, 1, 2], Inr ?ssa)"
    by simp
qed

text \<open>
  C5.  In an installation where \<^verbatim>\<open>sync-transformer\<close> and \<^verbatim>\<open>async-transformer\<close> resolve to
  the modules of the test suite: on the document \<^verbatim>\<open>{}\<close>, the single reference
  \<^verbatim>\<open>sync-transformer\<close> gives \<^verbatim>\<open>{"x-transformers": [["sync-transformer"]]}\<close>, and the two
  references in this order give
  \<^verbatim>\<open>{"x-transformers": [["sync-transformer"], ["async-transformer"]]}\<close>.
\<close>

theorem sync_then_async:
  assumes "resolveTransformer env ''sync-transformer'' None = Inr sync_path"
    and "import_module env sync_path = Inr SyncTransformer"
    and "resolveTransformer env ''async-transformer'' None = Inr async_path"
    and "import_module env async_path = Inr AsyncTransformer"
  shows "applyTransformers env delays
           [\<lparr>transformers = [JStr ''sync-transformer''], configFilePath = None\<rparr>] (JObj []) =
         ([0], Inr (JObj [(''x-transformers'', JArr [JArr [JStr ''sync-transformer'']])]))
       \<and> applyTransformers env delays
           [\<lparr>transformers = [JStr ''sync-transformer'', JStr ''async-transformer''],
             configFilePath = None\<rparr>] (JObj []) =
         ([0, 1],
          Inr (JObj [(''x-transformers'',
                      JArr [JArr [JStr ''sync-transformer''],
                            JArr [JStr ''async-transformer'']])]))"
proof -
  have s: "instantiate env None (JStr ''sync-transformer'') =
      Inr (transformOpenApi ''sync-transformer'' [])"
    using assms(1,2) by (simp add: instantiate_def SyncTransformer_def)
  have a: "instantiate env None (JStr ''async-transformer'') =
      Inr (transformOpenApi ''async-transformer'' [])"
    using assms(3,4) by (simp add: instantiate_def AsyncTransformer_def)
  have one: "concat (map (createTransformersForConfig env)
      [\<lparr>transformers = [JStr ''sync-transformer''], configFilePath = None\<rparr>]) =
      map Inr [transformOpenApi ''sync-transformer'' []]"
    by (simp add: createTransformersForConfig_def resolveParent_def s)
  have two: "concat (map (createTransformersForConfig env)
      [\<lparr>transformers = [JStr ''sync-transformer'', JStr ''async-transformer''],
        configFilePath = None\<rparr>]) =
      map Inr [transformOpenApi ''sync-transformer'' [], transformOpenApi ''async-transformer'' []]"
    by (simp add: createTransformersForConfig_def resolveParent_def s a)
  show ?thesis
    unfolding applyTransformers_def one two promise_all_fulfilled
    by (simp add: transformOpenApi_def get_prop_def)
qed

theorem sync_then_async_witness:
  "applyTransformers example_env []
     [\<lparr>transformers = [JStr ''sync-transformer''], configFilePath = None\<rparr>] (JObj []) =
   ([0], Inr (JObj [(''x-transformers'', JArr [JArr [JStr ''sync-transformer'']])]))
   \<and> applyTransformers example_env []
       [\<lparr>transformers = [JStr ''sync-transformer'', JStr ''async-transformer''],
         configFilePath = None\<rparr>] (JObj []) =
     ([0, 1],
      Inr (JObj [(''x-transformers'',
                  JArr [JArr [JStr ''sync-transformer''],
                        JArr [JStr ''async-transformer'']])]))"
proof -
  have "resolveTransformer example_env ''sync-transformer'' None =
      Inr ''/opt/cli/node_modules/sync-transformer/index.js''"
    by (simp add: load_defs example_defs)
  moreover have "import_module example_env ''/opt/cli/node_modules/sync-transformer/index.js'' =
      Inr SyncTransformer"
    by (simp add: example_defs)
  moreover have "resolveTransformer example_env ''async-transformer'' None =
      Inr ''/opt/cli/node_modules/async-transformer/index.js''"
    by (simp add: load_defs example_defs)
  moreover have "import_module example_env ''/opt/cli/node_modules/async-transformer/index.js'' =
      Inr AsyncTransformer"
    by (simp add: example_defs)
  ultimately show ?thesis
    by (rule sync_then_async)
qed

section \<open>Assembling the pipeline\<close>

lemma early_rejections_none:
  assumes "map (settle env) configsOrPromises = map Inr configs"
  shows "early_rejections env config_delays configsOrPromises t = []"
proof -
  have n: "length configsOrPromises = length configs"
    using assms by (rule length_map_Inr)
  have "\<forall>i \<in> set (filter (\<lambda>i. (if i < length config_delays then config_delays ! i else 0) < t)
                     (completion_order config_delays (length configsOrPromises))).
          (case map Inr configs ! i of Inl e \<Rightarrow> Some e | Inr v \<Rightarrow> None) = None"
    using n by (simp add: set_completion_order)
  then show ?thesis
    unfolding early_rejections_def rejections_def assms by (rule map_filter_empty)
qed





lemma transform_document_succeeds:
  assumes "early_rejections env config_delays configsOrPromises
             (read_time env (openApiStream files)) = []"
    and "readJsonOrYaml env (openApiStream files) = (yaml_warnings, Inr openApi)"
    and "promise_all config_delays (map (settle env) configsOrPromises) = Inr configs"
    and "applyTransformers env delays configs openApi = (invoked, Inr newOpenApi)"
    and "stdout_error env = None"
  shows "transform_document env config_delays delays configsOrPromises files opts =
           Settled
             \<lparr>exit_code = Inr 0, stdout = [JSON_stringify env newOpenApi @ [newline]],
              stderr = tty_warning files opts @ map (\<lambda>w. w @ [newline]) yaml_warnings,
              called = invoked\<rparr>"
  using assms by (simp add: transform_document_def)

lemma openapiTransformerMain_parsed:
  assumes "check_arguments args options = Inr (argv, opts)"
    and "commander_parse env argv = Parsed events False files"
  shows "openapiTransformerMain env config_delays delays args options =
           transform_document env config_delays delays (foldl on_option [] events) files opts"
  using assms by (simp add: openapiTransformerMain_def)

text \<open>
  C1.  A run of the entry point whose command line is \<^verbatim>\<open>--transformer A --config f
  --transformer B\<close>, the options being handled in this order, where the file \<open>f\<close> holds a
  configuration whose \<open>transformers\<close> are \<open>[C, D]\<close>, and where the four transformers load
  (those of the file from the file's location) and transform: whatever the times at which
  the configurations and the loads settle, the transformers called are, in this order,
  A, then C, then D, then B, each one on what the one before it returned, and what is
  written to the output is what B returned.
\<close>

theorem config_position_is_kept:
  assumes "check_arguments args options = Inr (argv, opts)"
    and "commander_parse env argv =
           Parsed [OptTransformer A, OptConfig f, OptTransformer B] False files"
    and "readJsonOrYaml env (openApiStream files) = (yaml_warnings, Inr openApi)"
    and "readJson env (if f = ''-'' then Stdin else File f) =
           Inr (JObj [(''transformers'', JArr [C, D])])"
    and "string_or_tuple C" and "string_or_tuple D"
    and "instantiate env None (JStr A) = Inr a"
    and "instantiate env
           (resolveParent env (stream_path (if f = ''-'' then Stdin else File f))) C = Inr c"
    and "instantiate env
           (resolveParent env (stream_path (if f = ''-'' then Stdin else File f))) D = Inr d"
    and "instantiate env None (JStr B) = Inr b"
    and "a openApi = Inr afterA" and "c afterA = Inr afterC"
    and "d afterC = Inr afterD" and "b afterD = Inr afterB"
    and "stdout_error env = None"
  shows "openapiTransformerMain env config_delays delays args options =
           Settled
             \<lparr>exit_code = Inr 0, stdout = [JSON_stringify env afterB @ [newline]],
              stderr = tty_warning files opts @ map (\<lambda>w. w @ [newline]) yaml_warnings,
              called = [0, 1, 2, 3]\<rparr>"
proof -
  let ?stream = "if f = ''-'' then Stdin else File f"
  let ?events = "[OptTransformer A, OptConfig f, OptTransformer B]"
  let ?cA = "\<lparr>transformers = [JStr A], configFilePath = None\<rparr>"
  let ?cB = "\<lparr>transformers = [JStr B], configFilePath = None\<rparr>"
  let ?cF = "\<lparr>transformers = [C, D], configFilePath = stream_path ?stream\<rparr>"
  have collected: "foldl on_option [] ?events = [Config ?cA, ConfigPromise ?stream, Config ?cB]"
    by simp
  have "\<forall>t \<in> set [C, D]. string_or_tuple t"
    using assms(5,6) by simp
  with assms(4) have "readConfigFile env ?stream = Inr ?cF"
    by (rule readConfigFile_valid)
  then have settled: "map (settle env) (foldl on_option [] ?events) = map Inr [?cA, ?cF, ?cB]"
    unfolding collected by (simp add: settle_def)
  have early: "early_rejections env config_delays (foldl on_option [] ?events)
      (read_time env (openApiStream files)) = []"
    using settled by (rule early_rejections_none)
  have configs: "promise_all config_delays (map (settle env) (foldl on_option [] ?events)) =
      Inr [?cA, ?cF, ?cB]"
    unfolding settled by (rule promise_all_fulfilled)
  have "concat (map (createTransformersForConfig env) [?cA, ?cF, ?cB]) = map Inr [a, c, d, b]"
    using assms(7-10) by (simp add: createTransformersForConfig_def resolveParent_def)
  then have "applyTransformers env delays [?cA, ?cF, ?cB] openApi =
      transform_loop [a, c, d, b] 0 openApi"
    by (simp only: applyTransformers_def promise_all_fulfilled sum.case)
  then have applied: "applyTransformers env delays [?cA, ?cF, ?cB] openApi =
      ([0, 1, 2, 3], Inr afterB)"
    using assms(11-14) by simp
  show ?thesis
    unfolding openapiTransformerMain_parsed [OF assms(1,2)]
    using early assms(3) configs applied assms(15) by (rule transform_document_succeeds)
qed

lemma example_check_arguments:
  "check_arguments (ArgsArray argv) example_options =
     (if length argv < 2
      then Inl (TypeError ''args must be an Array with at least 2 items'')
      else Inr (argv, \<lparr>stdin_readable = True, stdout_writable = True, stderr_writable = True,
                       stdin_isTTY = False\<rparr>))"
  by (simp add: check_arguments_def example_options_def)

lemma example_readJson_config:
  "readJson example_env (if ''config.json'' = ''-'' then Stdin else File ''config.json'') =
     Inr (JObj [(''transformers'',
                 JArr [JStr ''sync-transformer'',
                       JArr [JStr ''async-transformer'', JStr ''asyncArg'']])])"
  by (simp add: read_defs example_defs)

lemma example_read_stdin: "readJsonOrYaml example_env (openApiStream []) = ([], Inr (JObj []))"
  by (simp add: read_defs openApiStream_def example_defs)

theorem config_position_is_kept_witness:
  "openapiTransformerMain example_env [0, 9, 1] [4, 3, 2, 1]
     (ArgsArray [''node'', ''openapi-transformer'', ''-t'', ''sync-transformer'',
                 ''-c'', ''config.json'', ''-t'', ''async-transformer''])
     example_options =
   Settled
     \<lparr>exit_code = Inr 0,
      stdout = [JSON_stringify example_env
                  (JObj [(''x-transformers'',
                          JArr [JArr [JStr ''sync-transformer''],
                                JArr [JStr ''sync-transformer''],
                                JArr [JStr ''async-transformer'', JStr ''asyncArg''],
                                JArr [JStr ''async-transformer'']])]) @ [newline]],
      stderr = [], called = [0, 1, 2, 3]\<rparr>"
proof -
  let ?argv = "[''node'', ''openapi-transformer'', ''-t'', ''sync-transformer'',
                ''-c'', ''config.json'', ''-t'', ''async-transformer'']"
  let ?opts = "\<lparr>stdin_readable = True, stdout_writable = True, stderr_writable = True,
                stdin_isTTY = False\<rparr>"
  let ?parent = "resolveParent example_env
      (stream_path (if ''config.json'' = ''-'' then Stdin else File ''config.json''))"
  have checked: "check_arguments (ArgsArray ?argv) example_options = Inr (?argv, ?opts)"
    by (simp add: example_check_arguments)
  have parsed: "commander_parse example_env ?argv =
      Parsed [OptTransformer ''sync-transformer'', OptConfig ''config.json'',
              OptTransformer ''async-transformer''] False []"
    by (simp add: example_defs)
  have A: "instantiate example_env None (JStr ''sync-transformer'') =
      Inr (transformOpenApi ''sync-transformer'' [])"
    by (simp add: example_instantiate_sync SyncTransformer_def)
  have C: "instantiate example_env ?parent (JStr ''sync-transformer'') =
      Inr (transformOpenApi ''sync-transformer'' [])"
    by (simp add: load_defs SyncTransformer_def example_defs)
  have D: "instantiate example_env ?parent
      (JArr [JStr ''async-transformer'', JStr ''asyncArg'']) =
      Inr (transformOpenApi ''async-transformer'' [JStr ''asyncArg''])"
    by (simp add: load_defs AsyncTransformer_def example_defs)
  have B: "instantiate example_env None (JStr ''async-transformer'') =
      Inr (transformOpenApi ''async-transformer'' [])"
    by (simp add: example_instantiate_async AsyncTransformer_def)
  have afterA: "transformOpenApi ''sync-transformer'' [] (JObj []) =
      Inr (JObj [(''x-transformers'', JArr [JArr [JStr ''sync-transformer'']])])"
    by (simp add: transformer_defs)
  have afterC: "transformOpenApi ''sync-transformer'' []
      (JObj [(''x-transformers'', JArr [JArr [JStr ''sync-transformer'']])]) =
      Inr (JObj [(''x-transformers'',
                  JArr [JArr [JStr ''sync-transformer''], JArr [JStr ''sync-transformer'']])])"
    by (simp add: transformer_defs)
  have afterD: "transformOpenApi ''async-transformer'' [JStr ''asyncArg'']
      (JObj [(''x-transformers'',
              JArr [JArr [JStr ''sync-transformer''], JArr [JStr ''sync-transformer'']])]) =
      Inr (JObj [(''x-transformers'',
                  JArr [JArr [JStr ''sync-transformer''], JArr [JStr ''sync-transformer''],
                        JArr [JStr ''async-transformer'', JStr ''asyncArg'']])])"
    by (simp add: transformer_defs)
  have afterB: "transformOpenApi ''async-transformer'' []
      (JObj [(''x-transformers'',
              JArr [JArr [JStr ''sync-transformer''], JArr [JStr ''sync-transformer''],
                    JArr [JStr ''async-transformer'', JStr ''asyncArg'']])]) =
      Inr (JObj [(''x-transformers'',
                  JArr [JArr [JStr ''sync-transformer''], JArr [JStr ''sync-transformer''],
                        JArr [JStr ''async-transformer'', JStr ''asyncArg''],
                        JArr [JStr ''async-transformer'']])])"
    by (simp add: transformer_defs)
  have written: "stdout_error example_env = None"
    by (simp add: example_env_def)
  show ?thesis
    using config_position_is_kept [OF checked parsed example_read_stdin example_readJson_config
        _ _ A C D B afterA afterC afterD afterB written, of "[0, 9, 1]" "[4, 3, 2, 1]"]
    by (simp add: tty_warning_def)
qed

text \<open>
  The same options in another order, run through the entry point of the example
  installation: with the file named first its two transformers are called first.
\<close>

lemma example_run_config_first:
  "openapiTransformerMain example_env [] []
     (ArgsArray [''node'', ''openapi-transformer'', ''-c'', ''config.json'',
                 ''-t'', ''sync-transformer'', ''-t'', ''async-transformer''])
     example_options =
   Settled
     \<lparr>exit_code = Inr 0,
      stdout = [JSON_stringify example_env
                  (JObj [(''x-transformers'',
                          JArr [JArr [JStr ''sync-transformer''],
                                JArr [JStr ''async-transformer'', JStr ''asyncArg''],
                                JArr [JStr ''sync-transformer''],
                                JArr [JStr ''async-transformer'']])]) @ [newline]],
      stderr = [], called = [0, 1, 2, 3]\<rparr>"
  by (simp add: main_defs load_defs read_defs readConfigFile_def transformer_defs example_defs)

section \<open>Exit codes of the entry point\<close>




text \<open>
  A configuration promise that is rejected while the document is still being read has no
  handler: with the configuration file \<^verbatim>\<open>none.json\<close>, which is refused at once, and the
  document \<^verbatim>\<open>slow.json\<close>, which takes its time, the run of the example installation does
  not get to its \<^verbatim>\<open>catch\<close>.
\<close>

lemma example_unhandled_rejection:
  "openapiTransformerMain example_env [] []
     (ArgsArray [''node'', ''openapi-transformer'', ''--config'', ''none.json'', ''slow.json''])
     example_options =
   Unhandled (TypeError ''transformers is not iterable'')"
  by (simp add: main_defs load_defs read_defs readConfigFile_def get_prop_def example_defs)




section \<open>Failures of a transformer\<close>







lemmas main2_defs =
  openapiTransformerMain2_def transform_document2_def check_arguments_def
  openApiStream_def tty_warning_def failed2_def failed_def rejected_def collect_def










section \<open>Where a specifier of the command line is looked up\<close>

text \<open>
  The entry point with \<^verbatim>\<open>--config\<close> gives the objects of the \<^verbatim>\<open>--transformer\<close> handler
  no \<^verbatim>\<open>configFilePath\<close>, so their specifiers reach the resolver without a parent, and
  \<^verbatim>\<open>require.resolve\<close> is called without \<^verbatim>\<open>paths\<close>.
\<close>

lemma cli_specifier_without_paths:
  "import_meta_resolve env = None \<Longrightarrow>
     resolveTransformer env name (resolveParent env None) = require_resolve env name None"
  by (simp add: resolveTransformer_def resolveParent_def makeResolver_def)

text \<open>
  The entry point with \<^verbatim>\<open>--transformer\<close> only passes the URL of a file in the working
  directory as the parent; where the URL and path helpers undo each other on it,
  \<^verbatim>\<open>require.resolve\<close> is called with the working directory as its only path.
\<close>

lemma cli_specifier_from_cwd:
  assumes "cwdUrl env \<noteq> []"
    and "fileURLToPath env (cwdUrl env) = Inr dummy"
    and "path_dirname env dummy = cwd"
    and "take 5 name \<noteq> ''file:''"
  shows "makeResolver2 env name (Some (cwdUrl env)) =
           (case require_resolve env name (Some [cwd]) of
              Inl e \<Rightarrow> Inl e
            | Inr resolved \<Rightarrow> Inr (pathToFileURL env resolved))"
  using assms by (simp add: makeResolver2_def)

text \<open>
  The CommonJS revision gives \<^verbatim>\<open>require.resolve\<close> the working directory as its only
  path when the object has no \<^verbatim>\<open>configFilePath\<close>.
\<close>

lemma cli_specifier_from_cwd3:
  "createTransformersForConfig3 env \<lparr>transformers = [JStr name], configFilePath = None\<rparr> =
     [case require_resolve env name (Some [process_cwd env]) of
        Inl e \<Rightarrow> Inl e
      | Inr resolved \<Rightarrow>
          (case import_module env resolved of
             Inl e \<Rightarrow> Inl e
           | Inr Transformer \<Rightarrow> Transformer [])]"
  by (simp add: createTransformersForConfig3_def instantiate3_def searchPath_def)

text \<open>
  C3.  In the example installation the module \<^verbatim>\<open>t.js\<close> is in the working directory
  \<^verbatim>\<open>/work\<close>, and a lookup of \<^verbatim>\<open>./t.js\<close> rooted there finds it.  The entry point with
  \<^verbatim>\<open>--config\<close>, given \<^verbatim>\<open>-t ./t.js\<close>, does not find it: the run ends with exit code 1 and
  the resolver's error.  The entry point with \<^verbatim>\<open>--transformer\<close> only, given the same
  arguments, loads and applies it.
\<close>

theorem cli_specifier_lookup:
  "require_resolve example_env ''./t.js''
     (Some [path_dirname example_env (path_resolve example_env ''dummy.js'')]) =
     Inr ''/work/t.js''
   \<and> openapiTransformerMain example_env [] []
       (ArgsArray [''node'', ''openapi-transformer'', ''-t'', ''./t.js'']) example_options =
     Settled
       \<lparr>exit_code = Inr 1, stdout = [],
        stderr = [''Error: Cannot find module '' @ [quote] @ ''./t.js'' @ [quote] @ [newline]],
        called = []\<rparr>
   \<and> openapiTransformerMain2 example_env
       (ArgsArray [''node'', ''openapi-transformer'', ''-t'', ''./t.js'']) example_options =
     \<lparr>exit_code = Inr 0,
      stdout = [JSON_stringify example_env
                  (JObj [(''x-transformers'', JArr [JArr [JStr ''sync-transformer'']])]) @
                [newline]],
      stderr = [], called = [0]\<rparr>"
proof (intro conjI)
  show "require_resolve example_env ''./t.js''
     (Some [path_dirname example_env (path_resolve example_env ''dummy.js'')]) =
     Inr ''/work/t.js''"
    by (simp add: example_defs)
  show "openapiTransformerMain example_env [] []
       (ArgsArray [''node'', ''openapi-transformer'', ''-t'', ''./t.js'']) example_options =
     Settled
       \<lparr>exit_code = Inr 1, stdout = [],
        stderr = [''Error: Cannot find module '' @ [quote] @ ''./t.js'' @ [quote] @ [newline]],
        called = []\<rparr>"
    by (simp add: main_defs load_defs read_defs example_defs)
  show "openapiTransformerMain2 example_env
       (ArgsArray [''node'', ''openapi-transformer'', ''-t'', ''./t.js'']) example_options =
     \<lparr>exit_code = Inr 0,
      stdout = [JSON_stringify example_env
                  (JObj [(''x-transformers'', JArr [JArr [JStr ''sync-transformer'']])]) @
                [newline]],
      stderr = [], called = [0]\<rparr>"
    by (simp add: main2_defs load2_defs read_defs transformer_defs example_defs)
qed

end
